theory Spec2Isabelle
  imports Main "HOL-Library.Word"
begin

section \<open>Exceptions\<close>

text \<open>
  The Python exceptions the storage classes of \<^verbatim>\<open>utils.py\<close> can raise, directly or
  through \<^verbatim>\<open>os\<close>, \<^verbatim>\<open>numpy\<close>, \<^verbatim>\<open>h5py\<close> and \<^verbatim>\<open>PIL\<close>. \<open>AttributeError\<close> carries its message,
  because the source raises it with three fixed messages and the interpreter raises it
  with another one for a missing attribute.
\<close>

datatype error =
    AttributeError string
  | AssertionError
  | FileExistsError
  | FileNotFoundError
  | IndexError
  | KeyError
  | ValueError
  | TypeError
  | OSError

text \<open>The error conditions of the specification, as the exceptions the code uses for them.\<close>

fun NotLocked :: "error \<Rightarrow> bool" where
  "NotLocked (AttributeError m) = True"
| "NotLocked e = False"

fun DirectoryConflict :: "error \<Rightarrow> bool" where
  "DirectoryConflict FileExistsError = True"
| "DirectoryConflict e = False"

fun ShapeMismatch :: "error \<Rightarrow> bool" where
  "ShapeMismatch AssertionError = True"
| "ShapeMismatch e = False"

section \<open>Strings and paths\<close>

text \<open>\<^verbatim>\<open>s.rstrip(chars)\<close>: removes every trailing character that occurs in \<open>chars\<close>.\<close>

definition rstrip :: "string \<Rightarrow> string \<Rightarrow> string" where
  "rstrip s chars = rev (dropWhile (\<lambda>c. c \<in> set chars) (rev s))"

text \<open>\<^verbatim>\<open>os.path.join(a, b)\<close> of \<^verbatim>\<open>posixpath\<close>, for two components.\<close>

definition path_join :: "string \<Rightarrow> string \<Rightarrow> string" where
  "path_join a b =
     (if b \<noteq> [] \<and> hd b = CHR ''/'' then b
      else if a = [] \<or> last a = CHR ''/'' then a @ b
      else a @ ''/'' @ b)"

definition all_slashes :: "string \<Rightarrow> bool" where
  "all_slashes p = list_all (\<lambda>c. c = CHR ''/'') p"

text \<open>\<^verbatim>\<open>os.path.dirname(p)\<close> of \<^verbatim>\<open>posixpath\<close>.\<close>

definition dirname :: "string \<Rightarrow> string" where
  "dirname p =
     (let head = rev (dropWhile (\<lambda>c. c \<noteq> CHR ''/'') (rev p))
      in if head \<noteq> [] \<and> \<not> all_slashes head then rstrip head ''/'' else head)"

text \<open>\<^verbatim>\<open>str(n)\<close> for the integers that index samples, as the f-strings print them.\<close>

definition digit_char :: "nat \<Rightarrow> char" where
  "digit_char d = char_of (48 + d)"

function str_nat :: "nat \<Rightarrow> string" where
  "str_nat n = (if n < 10 then [digit_char n] else str_nat (n div 10) @ [digit_char (n mod 10)])"
  by pat_completeness auto
termination
  by (relation "measure id") auto

declare str_nat.simps [simp del]

definition str_int :: "int \<Rightarrow> string" where
  "str_int i = (if i < 0 then CHR ''-'' # str_nat (nat (- i)) else str_nat (nat i))"

section \<open>Configuration\<close>

text \<open>
  The \<^verbatim>\<open>config\<close> dictionary, with the four keys the storage classes read. The sizes are
  natural numbers: the specification's data model has \<open>N > 0\<close>, \<open>C > 0\<close> and positive
  extents, and \<open>0\<close> is kept as a degenerate value.
\<close>

record config =
  annotation_file :: string
  dataset_size :: nat
  target_shape :: "nat list"
  chunk_size :: nat

text \<open>\<^verbatim>\<open>config["annotation_file"].rstrip(".txt")\<close>, the expression all three constructors use.\<close>

definition artifact_path :: "config \<Rightarrow> string" where
  "artifact_path cfg = rstrip (annotation_file cfg) ''.txt''"

definition h5_filename :: "config \<Rightarrow> string" where
  "h5_filename cfg = artifact_path cfg @ ''.h5''"

section \<open>Arrays\<close>

text \<open>
  A \<^verbatim>\<open>numpy\<close> array of \<^verbatim>\<open>uint8\<close>: its shape and its elements in row-major order. The
  first axis indexes the samples, so sample \<open>i\<close> is the \<open>i\<close>-th block of
  \<open>prod_list (tl shape)\<close> bytes. The same type stands for an HDF5 dataset and for the
  view a memory map gives of its file.
\<close>

type_synonym byte = "8 word"

record ndarray =
  shape :: "nat list"
  buf :: "byte list"

definition zeros :: "nat list \<Rightarrow> ndarray" where
  "zeros sh = \<lparr>shape = sh, buf = replicate (prod_list sh) 0\<rparr>"

text \<open>\<^verbatim>\<open>a[:k]\<close> for a Python integer \<open>k\<close>; a negative \<open>k\<close> counts from the end.\<close>

definition slice_upto :: "ndarray \<Rightarrow> int \<Rightarrow> error + ndarray" where
  "slice_upto a k =
     (case shape a of
        [] \<Rightarrow> Inl IndexError
      | n # rest \<Rightarrow>
          let stop = (if k < 0 then nat (int n + k) else min (nat k) n)
          in Inr \<lparr>shape = stop # rest, buf = take (stop * prod_list rest) (buf a)\<rparr>)"

text \<open>\<^verbatim>\<open>a[i]\<close> for a Python integer \<open>i\<close>; a negative \<open>i\<close> counts from the end.\<close>

definition getrow :: "ndarray \<Rightarrow> int \<Rightarrow> error + ndarray" where
  "getrow a i =
     (case shape a of
        [] \<Rightarrow> Inl IndexError
      | n # rest \<Rightarrow>
          let j = (if i < 0 then i + int n else i)
          in if 0 \<le> j \<and> j < int n
             then Inr \<lparr>shape = rest,
                       buf = take (prod_list rest) (drop (nat j * prod_list rest) (buf a))\<rparr>
             else Inl IndexError)"

text \<open>
  The rows \<^verbatim>\<open>slice(l, r)\<close> selects in an axis of length \<open>n\<close>, as
  \<^verbatim>\<open>slice.indices\<close> clips them: the first row and the number of rows.
\<close>

definition span :: "nat \<Rightarrow> nat \<Rightarrow> nat \<Rightarrow> nat \<times> nat" where
  "span n l r = (min l n, min r n - min l n)"

text \<open>
  \<^verbatim>\<open>a[l:r] = v\<close> on the elements. The value must have the per-sample shape of the
  array, and as many rows as the slice selects or a single row, which is then repeated
  (broadcasting along the first axis). \<open>None\<close> is a value that cannot be broadcast;
  broadcasting of unit axes inside a sample is not modelled, such values are refused.
\<close>

definition put_rows :: "ndarray \<Rightarrow> nat \<Rightarrow> nat \<Rightarrow> ndarray \<Rightarrow> ndarray option" where
  "put_rows a l r v =
     (case (shape a, shape v) of
        (n # rest, k # vrest) \<Rightarrow>
          (case span n l r of
             (start, count) \<Rightarrow>
               if vrest = rest \<and> (k = count \<or> k = 1)
               then Some (a\<lparr>buf :=
                      take (start * prod_list rest) (buf a)
                      @ (if k = count then buf v else concat (replicate count (buf v)))
                      @ drop ((start + count) * prod_list rest) (buf a)\<rparr>)
               else None)
      | _ \<Rightarrow> None)"

section \<open>Images\<close>

text \<open>A \<^verbatim>\<open>PIL.Image\<close>: its mode, its size (width, height) and its pixel bytes.\<close>

record image =
  mode :: string
  im_size :: "nat \<times> nat"
  pixels :: "byte list"

text \<open>\<^verbatim>\<open>Image.fromarray(a)\<close> for a \<^verbatim>\<open>uint8\<close> array: the mode follows from the shape.\<close>

definition fromarray :: "ndarray \<Rightarrow> error + image" where
  "fromarray a =
     (case shape a of
        [h, w] \<Rightarrow> Inr \<lparr>mode = ''L'', im_size = (w, h), pixels = buf a\<rparr>
      | [h, w, c] \<Rightarrow>
          if c = 2 then Inr \<lparr>mode = ''LA'', im_size = (w, h), pixels = buf a\<rparr>
          else if c = 3 then Inr \<lparr>mode = ''RGB'', im_size = (w, h), pixels = buf a\<rparr>
          else if c = 4 then Inr \<lparr>mode = ''RGBA'', im_size = (w, h), pixels = buf a\<rparr>
          else Inl TypeError
      | _ \<Rightarrow> Inl TypeError)"

text \<open>
  \<^verbatim>\<open>Image.fromarray(a, mode)\<close> for the two modes the source passes: the array must have
  the layout of the mode.
\<close>

definition fromarray_mode :: "ndarray \<Rightarrow> string \<Rightarrow> error + image" where
  "fromarray_mode a m =
     (case shape a of
        [h, w] \<Rightarrow> if m = ''L'' then Inr \<lparr>mode = ''L'', im_size = (w, h), pixels = buf a\<rparr>
                  else Inl ValueError
      | [h, w, c] \<Rightarrow> if m = ''RGB'' \<and> c = 3
                     then Inr \<lparr>mode = ''RGB'', im_size = (w, h), pixels = buf a\<rparr>
                     else Inl ValueError
      | _ \<Rightarrow> Inl ValueError)"

text \<open>
  The image codecs of \<^verbatim>\<open>PIL\<close> are not part of the repository; the model takes them as
  a parameter: the JPEG and the PNG encoder, the decoder \<^verbatim>\<open>Image.open\<close> applies to
  a file's bytes (\<open>None\<close> when it does not recognise them), and the conversion between
  different modes.
\<close>

record codecs =
  jpeg_encode :: "image \<Rightarrow> byte list"
  png_encode :: "image \<Rightarrow> byte list"
  image_decode :: "byte list \<Rightarrow> image option"
  convert_mode :: "image \<Rightarrow> string \<Rightarrow> image"

text \<open>\<^verbatim>\<open>im.convert(m)\<close>: a copy when the image has the mode already.\<close>

definition convert :: "codecs \<Rightarrow> image \<Rightarrow> string \<Rightarrow> image" where
  "convert c im m = (if mode im = m then im else convert_mode c im m)"

section \<open>File system\<close>

text \<open>
  The part of the file system the backends touch: the directories that exist and the
  files with their contents, each named by its path as the program spells it (paths are
  compared as strings; intermediate directories are not tracked). An HDF5 file holds
  named datasets; every other file holds bytes.
\<close>

datatype content = H5 "(string \<times> ndarray) list" | Bytes "byte list"

record filesystem =
  dirs :: "string list"
  files :: "(string \<times> content) list"

definition norm_dir :: "string \<Rightarrow> string" where
  "norm_dir p = (if all_slashes p then p else rstrip p ''/'')"

text \<open>The empty name is the working directory, a name of slashes is the root.\<close>

definition dir_exists :: "filesystem \<Rightarrow> string \<Rightarrow> bool" where
  "dir_exists fs d = (all_slashes d \<or> norm_dir d \<in> set (dirs fs))"

definition read_file :: "filesystem \<Rightarrow> string \<Rightarrow> content option" where
  "read_file fs p = map_of (files fs) p"

text \<open>Binding a key of an association list: in place when the key is bound already.\<close>

fun alist_put :: "'k \<Rightarrow> 'v \<Rightarrow> ('k \<times> 'v) list \<Rightarrow> ('k \<times> 'v) list" where
  "alist_put k v [] = [(k, v)]"
| "alist_put k v (e # xs) = (if fst e = k then (k, v) # xs else e # alist_put k v xs)"

definition store :: "string \<Rightarrow> content \<Rightarrow> filesystem \<Rightarrow> filesystem" where
  "store p x fs = fs\<lparr>files := alist_put p x (files fs)\<rparr>"

text \<open>Creating or overwriting a file needs its directory.\<close>

definition write_file :: "string \<Rightarrow> content \<Rightarrow> filesystem \<Rightarrow> (error + unit) \<times> filesystem" where
  "write_file p x fs =
     (if dir_exists fs (dirname p) then (Inr (), store p x fs)
      else (Inl FileNotFoundError, fs))"

text \<open>\<^verbatim>\<open>os.makedirs(p, exist_ok=e)\<close>.\<close>

definition makedirs :: "string \<Rightarrow> bool \<Rightarrow> filesystem \<Rightarrow> (error + unit) \<times> filesystem" where
  "makedirs p exist_ok fs =
     (if p = [] then (Inl FileNotFoundError, fs)
      else if dir_exists fs p then ((if exist_ok then Inr () else Inl FileExistsError), fs)
      else if read_file fs (norm_dir p) \<noteq> None then (Inl FileExistsError, fs)
      else (Inr (), fs\<lparr>dirs := norm_dir p # dirs fs\<rparr>))"

text \<open>\<^verbatim>\<open>len(os.listdir(d))\<close>: the number of files and directories directly inside \<open>d\<close>.\<close>

definition listdir_len :: "filesystem \<Rightarrow> string \<Rightarrow> error + nat" where
  "listdir_len fs d =
     (if dir_exists fs d \<and> d \<noteq> []
      then Inr (length (filter (\<lambda>p. dirname p = norm_dir d \<and> p \<noteq> norm_dir d)
                          (map fst (files fs) @ dirs fs)))
      else Inl FileNotFoundError)"

section \<open>The abstract class \<^verbatim>\<open>storage_class\<close>\<close>

text \<open>
  An instance is its attribute dictionary: \<^verbatim>\<open>config\<close>, \<^verbatim>\<open>pos\<close> and the private
  Boolean attributes, kept under the names Python gives them. Inside the body of a class
  \<open>K\<close>, the identifier \<^verbatim>\<open>__locked\<close> is compiled to \<^verbatim>\<open>_K__locked\<close> (name mangling), so
  \<open>attrs\<close> is keyed by the mangled name.
\<close>

record storage_class =
  config :: config
  pos :: nat
  attrs :: "string \<Rightarrow> bool option"

definition mangle :: "string \<Rightarrow> string \<Rightarrow> string" where
  "mangle cls name = CHR ''_'' # dropWhile (\<lambda>c. c = CHR ''_'') cls @ name"

text \<open>The message of the interpreter's \<^verbatim>\<open>AttributeError\<close> for an attribute that is not there.\<close>

definition no_attribute :: "string \<Rightarrow> string \<Rightarrow> string" where
  "no_attribute cls a =
     [CHR 0x27] @ cls @ [CHR 0x27] @ '' object has no attribute '' @ [CHR 0x27] @ a @ [CHR 0x27]"

text \<open>\<^verbatim>\<open>storage_class.__init__\<close>: the assignment to \<^verbatim>\<open>self.__locked\<close> is in the body of
  \<^verbatim>\<open>storage_class\<close>.\<close>

definition storage_class_init :: "config \<Rightarrow> storage_class" where
  "storage_class_init cfg =
     \<lparr>config = cfg, pos = 0,
      attrs = (\<lambda>a. None)(mangle ''storage_class'' ''__locked'' := Some False)\<rparr>"

text \<open>Reading and writing \<^verbatim>\<open>self.__locked\<close> in the body of the class \<open>cls\<close>.\<close>

definition get_locked :: "string \<Rightarrow> 'a storage_class_scheme \<Rightarrow> error + bool" where
  "get_locked cls s =
     (case attrs s (mangle cls ''__locked'') of
        None \<Rightarrow> Inl (AttributeError (no_attribute cls (mangle cls ''__locked'')))
      | Some b \<Rightarrow> Inr b)"

definition set_locked :: "string \<Rightarrow> bool \<Rightarrow> 'a storage_class_scheme \<Rightarrow> 'a storage_class_scheme" where
  "set_locked cls b s = s\<lparr>attrs := (attrs s)(mangle cls ''__locked'' := Some b)\<rparr>"

text \<open>Sequencing of computations that may raise.\<close>

definition bindE :: "error + 'a \<Rightarrow> ('a \<Rightarrow> error + 'b) \<Rightarrow> error + 'b" where
  "bindE x f = (case x of Inl e \<Rightarrow> Inl e | Inr a \<Rightarrow> f a)"

text \<open>The index range of an append: \<^verbatim>\<open>l_idx\<close> and \<^verbatim>\<open>r_idx\<close>, the same two lines in the three
  classes.\<close>

definition l_idx :: "'a storage_class_scheme \<Rightarrow> nat" where
  "l_idx s = pos s * chunk_size (config s)"

definition r_idx :: "'a storage_class_scheme \<Rightarrow> nat" where
  "r_idx s = min (dataset_size (config s)) (l_idx s + chunk_size (config s))"

section \<open>\<^verbatim>\<open>storage_hdf5\<close>\<close>

datatype h5mode = ReadWrite | ReadOnly | Closed

record h5file =
  h5_name :: string
  h5_mode :: h5mode

text \<open>\<^verbatim>\<open>h5py.File(name, 'a')\<close>: read/write if the file exists, create it otherwise.\<close>

definition h5_open_append :: "string \<Rightarrow> filesystem \<Rightarrow> (error + h5file) \<times> filesystem" where
  "h5_open_append name fs =
     (case read_file fs name of
        Some (H5 ds) \<Rightarrow> (Inr \<lparr>h5_name = name, h5_mode = ReadWrite\<rparr>, fs)
      | Some (Bytes b) \<Rightarrow> (Inl OSError, fs)
      | None \<Rightarrow>
          (case write_file name (H5 []) fs of
             (Inl e, fs') \<Rightarrow> (Inl e, fs')
           | (Inr u, fs') \<Rightarrow> (Inr \<lparr>h5_name = name, h5_mode = ReadWrite\<rparr>, fs')))"

text \<open>\<^verbatim>\<open>h5py.File(name, 'r')\<close>.\<close>

definition h5_open_read :: "string \<Rightarrow> filesystem \<Rightarrow> error + h5file" where
  "h5_open_read name fs =
     (case read_file fs name of
        Some (H5 ds) \<Rightarrow> Inr \<lparr>h5_name = name, h5_mode = ReadOnly\<rparr>
      | Some (Bytes b) \<Rightarrow> Inl OSError
      | None \<Rightarrow> Inl FileNotFoundError)"

definition h5_datasets :: "h5file \<Rightarrow> filesystem \<Rightarrow> error + (string \<times> ndarray) list" where
  "h5_datasets f fs =
     (if h5_mode f = Closed then Inl ValueError
      else case read_file fs (h5_name f) of
             Some (H5 ds) \<Rightarrow> Inr ds
           | _ \<Rightarrow> Inl OSError)"

text \<open>\<^verbatim>\<open>f.create_dataset(name, shape=sh, dtype=np.uint8)\<close>: a \<^verbatim>\<open>ValueError\<close> when the name
  exists; the new dataset is filled with zeros.\<close>

definition create_dataset ::
  "h5file \<Rightarrow> string \<Rightarrow> nat list \<Rightarrow> filesystem \<Rightarrow> (error + unit) \<times> filesystem" where
  "create_dataset f name sh fs =
     (case h5_datasets f fs of
        Inl e \<Rightarrow> (Inl e, fs)
      | Inr ds \<Rightarrow>
          if h5_mode f \<noteq> ReadWrite \<or> map_of ds name \<noteq> None then (Inl ValueError, fs)
          else (Inr (), store (h5_name f) (H5 (alist_put name (zeros sh) ds)) fs))"

text \<open>\<^verbatim>\<open>try: ... except ValueError: pass\<close>.\<close>

definition except_ValueError_pass ::
  "(error + unit) \<times> filesystem \<Rightarrow> (error + unit) \<times> filesystem" where
  "except_ValueError_pass x =
     (case x of (Inl e, fs) \<Rightarrow> (if e = ValueError then Inr () else Inl e, fs)
              | (Inr u, fs) \<Rightarrow> (Inr u, fs))"

text \<open>\<^verbatim>\<open>f[name]\<close>.\<close>

definition h5_dataset :: "h5file \<Rightarrow> string \<Rightarrow> filesystem \<Rightarrow> error + ndarray" where
  "h5_dataset f name fs =
     bindE (h5_datasets f fs)
       (\<lambda>ds. case map_of ds name of None \<Rightarrow> Inl KeyError | Some a \<Rightarrow> Inr a)"

text \<open>
  \<^verbatim>\<open>f[name][l:r] = v\<close>. \<^verbatim>\<open>h5py\<close> returns before writing when the selection is empty; it
  refuses a write to a file opened read-only, and a value it cannot broadcast with a
  \<^verbatim>\<open>TypeError\<close>.
\<close>

definition h5_setslice ::
  "h5file \<Rightarrow> string \<Rightarrow> nat \<Rightarrow> nat \<Rightarrow> ndarray \<Rightarrow> filesystem \<Rightarrow> (error + unit) \<times> filesystem" where
  "h5_setslice f name l r v fs =
     (case h5_datasets f fs of
        Inl e \<Rightarrow> (Inl e, fs)
      | Inr ds \<Rightarrow>
          (case map_of ds name of
             None \<Rightarrow> (Inl KeyError, fs)
           | Some a \<Rightarrow>
               (case shape a of
                  [] \<Rightarrow> (Inl TypeError, fs)
                | n # rest \<Rightarrow>
                    if snd (span n l r) * prod_list rest = 0 then (Inr (), fs)
                    else if h5_mode f \<noteq> ReadWrite then (Inl OSError, fs)
                    else (case put_rows a l r v of
                            None \<Rightarrow> (Inl TypeError, fs)
                          | Some a' \<Rightarrow>
                              (Inr (), store (h5_name f) (H5 (alist_put name a' ds)) fs)))))"

record storage_hdf5 = storage_class +
  dataset :: h5file

definition input_shape :: "config \<Rightarrow> nat list" where
  "input_shape cfg = dataset_size cfg # target_shape cfg @ [3]"

definition mask_shape :: "config \<Rightarrow> nat list" where
  "mask_shape cfg = dataset_size cfg # target_shape cfg"

definition storage_hdf5_init :: "config \<Rightarrow> filesystem \<Rightarrow> (error + storage_hdf5) \<times> filesystem" where
  "storage_hdf5_init cfg fs =
     (let b = storage_class_init cfg in
      case h5_open_append (h5_filename cfg) fs of
        (Inl e, fs1) \<Rightarrow> (Inl e, fs1)
      | (Inr f, fs1) \<Rightarrow>
          (case except_ValueError_pass (create_dataset f ''input'' (input_shape cfg) fs1) of
             (Inl e, fs2) \<Rightarrow> (Inl e, fs2)
           | (Inr u, fs2) \<Rightarrow>
               (case except_ValueError_pass (create_dataset f ''target'' (mask_shape cfg) fs2) of
                  (Inl e, fs3) \<Rightarrow> (Inl e, fs3)
                | (Inr u, fs3) \<Rightarrow>
                    (Inr \<lparr>config = config b, pos = pos b, attrs = attrs b, dataset = f\<rparr>, fs3))))"

definition storage_hdf5_dataset_size :: "storage_hdf5 \<Rightarrow> filesystem \<Rightarrow> error + nat" where
  "storage_hdf5_dataset_size s fs =
     bindE (h5_dataset (dataset s) ''input'' fs) (\<lambda>inp.
     bindE (h5_dataset (dataset s) ''target'' fs) (\<lambda>tgt.
       if butlast (shape inp) \<noteq> shape tgt then Inl AssertionError
       else bindE (h5_dataset (dataset s) ''target'' fs) (\<lambda>tgt2.
         case shape tgt2 of
           [] \<Rightarrow> Inl IndexError
         | n # rest \<Rightarrow>
             if n \<noteq> dataset_size (config s) then Inl AssertionError
             else Inr (dataset_size (config s)))))"

definition storage_hdf5_append ::
  "storage_hdf5 \<Rightarrow> ndarray \<Rightarrow> ndarray \<Rightarrow> filesystem
     \<Rightarrow> (error + unit) \<times> storage_hdf5 \<times> filesystem" where
  "storage_hdf5_append s input_chunk target_chunk fs =
     (case slice_upto input_chunk (int (r_idx s) - int (l_idx s)) of
        Inl e \<Rightarrow> (Inl e, s, fs)
      | Inr vi \<Rightarrow>
          (case h5_setslice (dataset s) ''input'' (l_idx s) (r_idx s) vi fs of
             (Inl e, fs1) \<Rightarrow> (Inl e, s, fs1)
           | (Inr u, fs1) \<Rightarrow>
               (case slice_upto target_chunk (int (r_idx s) - int (l_idx s)) of
                  Inl e \<Rightarrow> (Inl e, s, fs1)
                | Inr vt \<Rightarrow>
                    (case h5_setslice (dataset s) ''target'' (l_idx s) (r_idx s) vt fs1 of
                       (Inl e, fs2) \<Rightarrow> (Inl e, s, fs2)
                     | (Inr u, fs2) \<Rightarrow> (Inr (), s\<lparr>pos := pos s + 1\<rparr>, fs2)))))"

definition storage_hdf5_lock ::
  "storage_hdf5 \<Rightarrow> filesystem \<Rightarrow> (error + unit) \<times> storage_hdf5 \<times> filesystem" where
  "storage_hdf5_lock s fs =
     (case h5_open_read (h5_filename (config s)) fs of
        Inl e \<Rightarrow> (Inl e, s\<lparr>dataset := (dataset s)\<lparr>h5_mode := Closed\<rparr>\<rparr>, fs)
      | Inr f \<Rightarrow> (Inr (), set_locked ''storage_hdf5'' True (s\<lparr>dataset := f\<rparr>), fs))"

definition storage_hdf5_getitem ::
  "storage_hdf5 \<Rightarrow> int \<Rightarrow> filesystem \<Rightarrow> error + image \<times> image" where
  "storage_hdf5_getitem s idx fs =
     bindE (get_locked ''storage_hdf5'' s) (\<lambda>locked.
       if \<not> locked then Inl (AttributeError ''HDF5 file is not locked. Access denied.'')
       else
         bindE (h5_dataset (dataset s) ''input'' fs) (\<lambda>inp.
         bindE (getrow inp idx) (\<lambda>a.
         bindE (fromarray a) (\<lambda>im.
         bindE (h5_dataset (dataset s) ''target'' fs) (\<lambda>tgt.
         bindE (getrow tgt idx) (\<lambda>b.
         bindE (fromarray b) (\<lambda>msk. Inr (im, msk))))))))"

section \<open>\<^verbatim>\<open>storage_memmap\<close>\<close>

text \<open>
  A \<^verbatim>\<open>np.memmap\<close> object: the file it maps, the shape it was opened with and whether
  it may be written. The elements are the bytes of the file; the file has no header.
\<close>

record memmap =
  mm_path :: string
  mm_shape :: "nat list"
  mm_writeable :: bool

text \<open>\<^verbatim>\<open>np.memmap(path, mode='w+', dtype=np.uint8, shape=sh)\<close>: creates or overwrites the
  file with \<open>prod_list sh\<close> zero bytes; an empty mapping is refused.\<close>

definition memmap_create :: "string \<Rightarrow> nat list \<Rightarrow> filesystem \<Rightarrow> (error + memmap) \<times> filesystem" where
  "memmap_create path sh fs =
     (if prod_list sh = 0 then (Inl ValueError, fs)
      else case write_file path (Bytes (replicate (prod_list sh) 0)) fs of
             (Inl e, fs') \<Rightarrow> (Inl e, fs')
           | (Inr u, fs') \<Rightarrow> (Inr \<lparr>mm_path = path, mm_shape = sh, mm_writeable = True\<rparr>, fs'))"

text \<open>\<^verbatim>\<open>np.memmap(path, mode='r', dtype=np.uint8, shape=sh)\<close>: the file must hold at least
  \<open>prod_list sh\<close> bytes.\<close>

definition memmap_open :: "string \<Rightarrow> nat list \<Rightarrow> filesystem \<Rightarrow> error + memmap" where
  "memmap_open path sh fs =
     (case read_file fs path of
        None \<Rightarrow> Inl FileNotFoundError
      | Some (H5 ds) \<Rightarrow> Inl ValueError
      | Some (Bytes b) \<Rightarrow>
          if prod_list sh = 0 \<or> length b < prod_list sh then Inl ValueError
          else Inr \<lparr>mm_path = path, mm_shape = sh, mm_writeable = False\<rparr>)"

text \<open>The array a mapping shows.\<close>

definition memmap_array :: "memmap \<Rightarrow> filesystem \<Rightarrow> error + ndarray" where
  "memmap_array m fs =
     (case read_file fs (mm_path m) of
        Some (Bytes b) \<Rightarrow> Inr \<lparr>shape = mm_shape m, buf = take (prod_list (mm_shape m)) b\<rparr>
      | _ \<Rightarrow> Inl OSError)"

text \<open>\<^verbatim>\<open>m[l:r] = v\<close>: \<^verbatim>\<open>numpy\<close> raises \<^verbatim>\<open>ValueError\<close> for a read-only destination and for
  a value it cannot broadcast, also when the slice is empty.\<close>

definition memmap_setslice ::
  "memmap \<Rightarrow> nat \<Rightarrow> nat \<Rightarrow> ndarray \<Rightarrow> filesystem \<Rightarrow> (error + unit) \<times> filesystem" where
  "memmap_setslice m l r v fs =
     (if \<not> mm_writeable m then (Inl ValueError, fs)
      else case read_file fs (mm_path m) of
             Some (Bytes b) \<Rightarrow>
               (case put_rows \<lparr>shape = mm_shape m, buf = take (prod_list (mm_shape m)) b\<rparr> l r v of
                  None \<Rightarrow> (Inl ValueError, fs)
                | Some a' \<Rightarrow>
                    (Inr (), store (mm_path m) (Bytes (buf a' @ drop (prod_list (mm_shape m)) b)) fs))
           | _ \<Rightarrow> (Inl OSError, fs))"

text \<open>
  \<^verbatim>\<open>self.input\<close> and \<^verbatim>\<open>self.target\<close> are optional: \<^verbatim>\<open>lock\<close> deletes both attributes
  before it maps the files again.
\<close>

record storage_memmap = storage_class +
  input_path :: string
  target_path :: string
  input :: "memmap option"
  target :: "memmap option"

text \<open>Reading an attribute that \<^verbatim>\<open>del\<close> may have removed.\<close>

definition getattr :: "string \<Rightarrow> string \<Rightarrow> 'a option \<Rightarrow> error + 'a" where
  "getattr cls a x = (case x of None \<Rightarrow> Inl (AttributeError (no_attribute cls a)) | Some v \<Rightarrow> Inr v)"

definition storage_memmap_init ::
  "config \<Rightarrow> filesystem \<Rightarrow> (error + storage_memmap) \<times> filesystem" where
  "storage_memmap_init cfg fs =
     (let b = storage_class_init cfg; path = artifact_path cfg in
      case makedirs path True fs of
        (Inl e, fs1) \<Rightarrow> (Inl e, fs1)
      | (Inr u, fs1) \<Rightarrow>
          (case memmap_create (path_join path ''input.npy'') (input_shape cfg) fs1 of
             (Inl e, fs2) \<Rightarrow> (Inl e, fs2)
           | (Inr mi, fs2) \<Rightarrow>
               (case memmap_create (path_join path ''target.npy'') (mask_shape cfg) fs2 of
                  (Inl e, fs3) \<Rightarrow> (Inl e, fs3)
                | (Inr mt, fs3) \<Rightarrow>
                    (Inr \<lparr>config = config b, pos = pos b, attrs = attrs b,
                          input_path = path_join path ''input.npy'',
                          target_path = path_join path ''target.npy'',
                          input = Some mi, target = Some mt\<rparr>, fs3))))"

definition storage_memmap_dataset_size :: "storage_memmap \<Rightarrow> error + nat" where
  "storage_memmap_dataset_size s =
     bindE (getattr ''storage_memmap'' ''input'' (input s)) (\<lambda>mi.
     bindE (getattr ''storage_memmap'' ''target'' (target s)) (\<lambda>mt.
       if butlast (mm_shape mi) \<noteq> mm_shape mt then Inl AssertionError
       else case mm_shape mi of
              [] \<Rightarrow> Inl IndexError
            | n # rest \<Rightarrow>
                if n \<noteq> dataset_size (config s) then Inl AssertionError
                else Inr (dataset_size (config s))))"

definition storage_memmap_append ::
  "storage_memmap \<Rightarrow> ndarray \<Rightarrow> ndarray \<Rightarrow> filesystem
     \<Rightarrow> (error + unit) \<times> storage_memmap \<times> filesystem" where
  "storage_memmap_append s input_chunk target_chunk fs =
     (case slice_upto input_chunk (int (r_idx s) - int (l_idx s)) of
        Inl e \<Rightarrow> (Inl e, s, fs)
      | Inr vi \<Rightarrow>
          (case getattr ''storage_memmap'' ''input'' (input s) of
             Inl e \<Rightarrow> (Inl e, s, fs)
           | Inr mi \<Rightarrow>
               (case memmap_setslice mi (l_idx s) (r_idx s) vi fs of
                  (Inl e, fs1) \<Rightarrow> (Inl e, s, fs1)
                | (Inr u, fs1) \<Rightarrow>
                    (case slice_upto target_chunk (int (r_idx s) - int (l_idx s)) of
                       Inl e \<Rightarrow> (Inl e, s, fs1)
                     | Inr vt \<Rightarrow>
                         (case getattr ''storage_memmap'' ''target'' (target s) of
                            Inl e \<Rightarrow> (Inl e, s, fs1)
                          | Inr mt \<Rightarrow>
                              (case memmap_setslice mt (l_idx s) (r_idx s) vt fs1 of
                                 (Inl e, fs2) \<Rightarrow> (Inl e, s, fs2)
                               | (Inr u, fs2) \<Rightarrow> (Inr (), s\<lparr>pos := pos s + 1\<rparr>, fs2)))))))"

text \<open>\<^verbatim>\<open>del self.input\<close> raises when the attribute is gone already.\<close>

definition storage_memmap_lock ::
  "storage_memmap \<Rightarrow> filesystem \<Rightarrow> (error + unit) \<times> storage_memmap \<times> filesystem" where
  "storage_memmap_lock s fs =
     (case getattr ''storage_memmap'' ''input'' (input s) of
        Inl e \<Rightarrow> (Inl e, s, fs)
      | Inr mi \<Rightarrow>
          (case getattr ''storage_memmap'' ''target'' (target s) of
             Inl e \<Rightarrow> (Inl e, s\<lparr>input := None\<rparr>, fs)
           | Inr mt \<Rightarrow>
               (case memmap_open (input_path s) (input_shape (config s)) fs of
                  Inl e \<Rightarrow> (Inl e, s\<lparr>input := None, target := None\<rparr>, fs)
                | Inr mi' \<Rightarrow>
                    (case memmap_open (target_path s) (mask_shape (config s)) fs of
                       Inl e \<Rightarrow> (Inl e, s\<lparr>input := Some mi', target := None\<rparr>, fs)
                     | Inr mt' \<Rightarrow>
                         (Inr (), set_locked ''storage_memmap'' True
                                    (s\<lparr>input := Some mi', target := Some mt'\<rparr>), fs)))))"

definition storage_memmap_getitem ::
  "storage_memmap \<Rightarrow> int \<Rightarrow> filesystem \<Rightarrow> error + image \<times> image" where
  "storage_memmap_getitem s idx fs =
     bindE (get_locked ''storage_memmap'' s) (\<lambda>locked.
       if \<not> locked then Inl (AttributeError ''Memory-mapped file is not locked. Access denied.'')
       else
         bindE (getattr ''storage_memmap'' ''input'' (input s)) (\<lambda>mi.
         bindE (memmap_array mi fs) (\<lambda>inp.
         bindE (getrow inp idx) (\<lambda>a.
         bindE (fromarray a) (\<lambda>im.
         bindE (getattr ''storage_memmap'' ''target'' (target s)) (\<lambda>mt.
         bindE (memmap_array mt fs) (\<lambda>tgt.
         bindE (getrow tgt idx) (\<lambda>b.
         bindE (fromarray b) (\<lambda>msk. Inr (im, msk))))))))))"

section \<open>\<^verbatim>\<open>storage_raw\<close>\<close>

definition ends_with :: "string \<Rightarrow> string \<Rightarrow> bool" where
  "ends_with p e = (length e \<le> length p \<and> drop (length p - length e) p = e)"

text \<open>\<^verbatim>\<open>im.save(p)\<close>: the extension of the path selects the encoder.\<close>

definition image_save ::
  "codecs \<Rightarrow> image \<Rightarrow> string \<Rightarrow> filesystem \<Rightarrow> (error + unit) \<times> filesystem" where
  "image_save c im p fs =
     (if ends_with p ''.jpg'' then write_file p (Bytes (jpeg_encode c im)) fs
      else if ends_with p ''.png'' then write_file p (Bytes (png_encode c im)) fs
      else (Inl ValueError, fs))"

text \<open>\<^verbatim>\<open>Image.open(p)\<close>.\<close>

definition image_open :: "codecs \<Rightarrow> string \<Rightarrow> filesystem \<Rightarrow> error + image" where
  "image_open c p fs =
     (case read_file fs p of
        None \<Rightarrow> Inl FileNotFoundError
      | Some (H5 ds) \<Rightarrow> Inl OSError
      | Some (Bytes b) \<Rightarrow> (case image_decode c b of None \<Rightarrow> Inl OSError | Some im \<Rightarrow> Inr im))"

text \<open>The two path attributes of \<^verbatim>\<open>storage_raw\<close>, \<^verbatim>\<open>input_path\<close> and \<^verbatim>\<open>target_path\<close>, are
  named \<open>raw_input_path\<close> and \<open>raw_target_path\<close> here.\<close>

record storage_raw = storage_class +
  raw_input_path :: string
  raw_target_path :: string

definition idx2input :: "storage_raw \<Rightarrow> int \<Rightarrow> string" where
  "idx2input s idx = path_join (raw_input_path s) (''input'' @ str_int idx @ ''.jpg'')"

definition idx2target :: "storage_raw \<Rightarrow> int \<Rightarrow> string" where
  "idx2target s idx = path_join (raw_target_path s) (''target'' @ str_int idx @ ''.png'')"

definition storage_raw_init :: "config \<Rightarrow> filesystem \<Rightarrow> (error + storage_raw) \<times> filesystem" where
  "storage_raw_init cfg fs =
     (let b = storage_class_init cfg; path = artifact_path cfg in
      case makedirs path True fs of
        (Inl e, fs1) \<Rightarrow> (Inl e, fs1)
      | (Inr u, fs1) \<Rightarrow>
          (case makedirs (path_join path ''Input'') False fs1 of
             (Inl e, fs2) \<Rightarrow> (Inl e, fs2)
           | (Inr u, fs2) \<Rightarrow>
               (case makedirs (path_join path ''Target'') False fs2 of
                  (Inl e, fs3) \<Rightarrow> (Inl e, fs3)
                | (Inr u, fs3) \<Rightarrow>
                    (Inr \<lparr>config = config b, pos = pos b, attrs = attrs b,
                          raw_input_path = path_join path ''Input'',
                          raw_target_path = path_join path ''Target''\<rparr>, fs3))))"

definition storage_raw_dataset_size :: "storage_raw \<Rightarrow> filesystem \<Rightarrow> error + nat" where
  "storage_raw_dataset_size s fs =
     bindE (listdir_len fs (raw_input_path s)) (\<lambda>ni.
     bindE (listdir_len fs (raw_target_path s)) (\<lambda>nt.
       if ni \<noteq> nt then Inl AssertionError
       else bindE (listdir_len fs (raw_input_path s)) (\<lambda>ni2.
         if ni2 \<noteq> dataset_size (config s) then Inl AssertionError
         else Inr (dataset_size (config s)))))"

text \<open>The body of the \<^verbatim>\<open>for\<close> loop of \<^verbatim>\<open>append\<close> for one index, and the loop over
  \<^verbatim>\<open>range(l_idx, r_idx)\<close>; an exception leaves the files written so far.\<close>

definition save_sample ::
  "codecs \<Rightarrow> storage_raw \<Rightarrow> ndarray \<Rightarrow> ndarray \<Rightarrow> nat \<Rightarrow> filesystem
     \<Rightarrow> (error + unit) \<times> filesystem" where
  "save_sample c s input_chunk target_chunk idx fs =
     (case bindE (getrow input_chunk (int idx - int (l_idx s))) (\<lambda>a. fromarray_mode a ''RGB'') of
        Inl e \<Rightarrow> (Inl e, fs)
      | Inr im \<Rightarrow>
          (case image_save c im (idx2input s (int idx)) fs of
             (Inl e, fs1) \<Rightarrow> (Inl e, fs1)
           | (Inr u, fs1) \<Rightarrow>
               (case bindE (getrow target_chunk (int idx - int (l_idx s)))
                       (\<lambda>b. fromarray_mode b ''L'') of
                  Inl e \<Rightarrow> (Inl e, fs1)
                | Inr msk \<Rightarrow> image_save c msk (idx2target s (int idx)) fs1)))"

fun save_samples ::
  "codecs \<Rightarrow> storage_raw \<Rightarrow> ndarray \<Rightarrow> ndarray \<Rightarrow> nat list \<Rightarrow> filesystem
     \<Rightarrow> (error + unit) \<times> filesystem" where
  "save_samples c s input_chunk target_chunk [] fs = (Inr (), fs)"
| "save_samples c s input_chunk target_chunk (idx # rest) fs =
     (case save_sample c s input_chunk target_chunk idx fs of
        (Inl e, fs1) \<Rightarrow> (Inl e, fs1)
      | (Inr u, fs1) \<Rightarrow> save_samples c s input_chunk target_chunk rest fs1)"

definition storage_raw_append ::
  "codecs \<Rightarrow> storage_raw \<Rightarrow> ndarray \<Rightarrow> ndarray \<Rightarrow> filesystem
     \<Rightarrow> (error + unit) \<times> storage_raw \<times> filesystem" where
  "storage_raw_append c s input_chunk target_chunk fs =
     (case save_samples c s input_chunk target_chunk [l_idx s ..< r_idx s] fs of
        (Inl e, fs1) \<Rightarrow> (Inl e, s, fs1)
      | (Inr u, fs1) \<Rightarrow> (Inr (), s\<lparr>pos := pos s + 1\<rparr>, fs1))"

definition storage_raw_lock :: "storage_raw \<Rightarrow> storage_raw" where
  "storage_raw_lock s = set_locked ''storage_raw'' True s"

definition storage_raw_getitem ::
  "codecs \<Rightarrow> storage_raw \<Rightarrow> int \<Rightarrow> filesystem \<Rightarrow> error + image \<times> image" where
  "storage_raw_getitem c s idx fs =
     bindE (get_locked ''storage_raw'' s) (\<lambda>locked.
       if \<not> locked then Inl (AttributeError ''Raw file is not locked. Access denied.'')
       else
         bindE (image_open c (idx2input s idx) fs) (\<lambda>im.
         bindE (image_open c (idx2target s idx) fs) (\<lambda>msk.
           Inr (convert c im ''RGB'', convert c msk ''L''))))"

section \<open>The three backends behind the contract\<close>

text \<open>
  A backend object is an instance of one of the three subclasses; the operations of
  \<^verbatim>\<open>storage_class\<close> dispatch on the class. Every operation returns what it raised or
  returned together with the object and the file system as it left them.
\<close>

datatype kind = HDF5 | MEMMAP | RAW

datatype backend = Hdf5 storage_hdf5 | Memmap storage_memmap | Raw storage_raw

fun construct :: "kind \<Rightarrow> config \<Rightarrow> filesystem \<Rightarrow> (error + backend) \<times> filesystem" where
  "construct HDF5 cfg fs = (case storage_hdf5_init cfg fs of (r, fs') \<Rightarrow> (map_sum id Hdf5 r, fs'))"
| "construct MEMMAP cfg fs = (case storage_memmap_init cfg fs of (r, fs') \<Rightarrow> (map_sum id Memmap r, fs'))"
| "construct RAW cfg fs = (case storage_raw_init cfg fs of (r, fs') \<Rightarrow> (map_sum id Raw r, fs'))"

fun kind_of :: "backend \<Rightarrow> kind" where
  "kind_of (Hdf5 s) = HDF5"
| "kind_of (Memmap s) = MEMMAP"
| "kind_of (Raw s) = RAW"

fun class_name :: "kind \<Rightarrow> string" where
  "class_name HDF5 = ''storage_hdf5''"
| "class_name MEMMAP = ''storage_memmap''"
| "class_name RAW = ''storage_raw''"

fun base :: "backend \<Rightarrow> storage_class" where
  "base (Hdf5 s) = storage_class.truncate s"
| "base (Memmap s) = storage_class.truncate s"
| "base (Raw s) = storage_class.truncate s"

fun dataset_size_call :: "backend \<Rightarrow> filesystem \<Rightarrow> error + nat" where
  "dataset_size_call (Hdf5 s) fs = storage_hdf5_dataset_size s fs"
| "dataset_size_call (Memmap s) fs = storage_memmap_dataset_size s"
| "dataset_size_call (Raw s) fs = storage_raw_dataset_size s fs"

fun append ::
  "codecs \<Rightarrow> backend \<Rightarrow> ndarray \<Rightarrow> ndarray \<Rightarrow> filesystem \<Rightarrow> (error + unit) \<times> backend \<times> filesystem" where
  "append c (Hdf5 s) ic tc fs =
     (case storage_hdf5_append s ic tc fs of (r, s', fs') \<Rightarrow> (r, Hdf5 s', fs'))"
| "append c (Memmap s) ic tc fs =
     (case storage_memmap_append s ic tc fs of (r, s', fs') \<Rightarrow> (r, Memmap s', fs'))"
| "append c (Raw s) ic tc fs =
     (case storage_raw_append c s ic tc fs of (r, s', fs') \<Rightarrow> (r, Raw s', fs'))"

fun lock :: "backend \<Rightarrow> filesystem \<Rightarrow> (error + unit) \<times> backend \<times> filesystem" where
  "lock (Hdf5 s) fs = (case storage_hdf5_lock s fs of (r, s', fs') \<Rightarrow> (r, Hdf5 s', fs'))"
| "lock (Memmap s) fs = (case storage_memmap_lock s fs of (r, s', fs') \<Rightarrow> (r, Memmap s', fs'))"
| "lock (Raw s) fs = (Inr (), Raw (storage_raw_lock s), fs)"

fun getitem :: "codecs \<Rightarrow> backend \<Rightarrow> int \<Rightarrow> filesystem \<Rightarrow> error + image \<times> image" where
  "getitem c (Hdf5 s) idx fs = storage_hdf5_getitem s idx fs"
| "getitem c (Memmap s) idx fs = storage_memmap_getitem s idx fs"
| "getitem c (Raw s) idx fs = storage_raw_getitem c s idx fs"

text \<open>The lock flag \<^verbatim>\<open>__getitem__\<close> of the object's class reads.\<close>

definition lock_flag :: "backend \<Rightarrow> bool option" where
  "lock_flag b = attrs (base b) (mangle (class_name (kind_of b)) ''__locked'')"

text \<open>A caller's use of a backend: the calls of the contract, in any order. A call that
  raises leaves the object and the files as they were at the exception, and the caller
  goes on.\<close>

datatype call = Append ndarray ndarray | Lock | GetItem int | DatasetSize

datatype returned = Nothing | Size nat | Sample image image

fun step :: "codecs \<Rightarrow> call \<Rightarrow> backend \<times> filesystem \<Rightarrow> (error + returned) \<times> backend \<times> filesystem" where
  "step c (Append ic tc) (b, fs) =
     (case append c b ic tc fs of (r, b', fs') \<Rightarrow> (map_sum id (\<lambda>u. Nothing) r, b', fs'))"
| "step c Lock (b, fs) =
     (case lock b fs of (r, b', fs') \<Rightarrow> (map_sum id (\<lambda>u. Nothing) r, b', fs'))"
| "step c (GetItem idx) (b, fs) =
     (map_sum id (\<lambda>(im, msk). Sample im msk) (getitem c b idx fs), b, fs)"
| "step c DatasetSize (b, fs) = (map_sum id Size (dataset_size_call b fs), b, fs)"

fun run :: "codecs \<Rightarrow> call list \<Rightarrow> backend \<times> filesystem \<Rightarrow> backend \<times> filesystem" where
  "run c [] w = w"
| "run c (x # xs) w = run c xs (snd (step c x w))"

section \<open>Scenarios, invariants and observations\<close>

text \<open>
  The scenario of the specification's testable properties, with \<open>N = 5\<close> and \<open>C = 2\<close>
  (and \<open>2 \<times> 2\<close> samples), a file system that holds nothing but the directory of the
  annotation file, one where the Flat-File backend's \<^verbatim>\<open>Input\<close> directory is there
  already, and one with a container file whose arrays were written for \<open>1 \<times> 1\<close>
  samples.
\<close>

definition scenario_config :: config where
  "scenario_config =
     \<lparr>annotation_file = ''data/trainval.txt'', dataset_size = 5, target_shape = [2, 2],
      chunk_size = 2\<rparr>"

definition fresh_fs :: filesystem where
  "fresh_fs = \<lparr>dirs = [''data''], files = []\<rparr>"

definition conflict_fs :: filesystem where
  "conflict_fs = \<lparr>dirs = [''data/trainval/Input'', ''data/trainval'', ''data''], files = []\<rparr>"

text \<open>A configuration whose annotation file is named \<^verbatim>\<open>.txt\<close>, so that the derived name is
  empty, and a file system whose working directory holds a directory \<^verbatim>\<open>Input\<close>.\<close>

definition unnamed_config :: config where
  "unnamed_config = scenario_config\<lparr>annotation_file := ''.txt''\<rparr>"

definition input_fs :: filesystem where
  "input_fs = \<lparr>dirs = [''Input''], files = []\<rparr>"

definition stale_fs :: filesystem where
  "stale_fs =
     \<lparr>dirs = [''data''],
      files = [(''data/trainval.h5'',
                H5 [(''input'', zeros [5, 1, 1, 3]), (''target'', zeros [5, 1, 1])])]\<rparr>"

text \<open>
  What holds of a backend once \<^verbatim>\<open>lock\<close> has returned: the flag \<^verbatim>\<open>__getitem__\<close> reads is
  \<open>True\<close>; for \<^verbatim>\<open>storage_memmap\<close>, both mappings are there, read-only, and their files
  can be mapped again.
\<close>

definition locked_ok :: "backend \<Rightarrow> filesystem \<Rightarrow> bool" where
  "locked_ok b fs =
     (lock_flag b = Some True \<and>
      (case b of
         Memmap s \<Rightarrow>
           (case (input s, target s) of
              (Some mi, Some mt) \<Rightarrow>
                \<not> mm_writeable mi \<and> \<not> mm_writeable mt
                \<and> isl (memmap_open (input_path s) (input_shape (config s)) fs) = False
                \<and> isl (memmap_open (target_path s) (mask_shape (config s)) fs) = False
            | _ \<Rightarrow> False)
       | _ \<Rightarrow> True))"

text \<open>The messages of the three \<^verbatim>\<open>raise AttributeError(...)\<close> statements.\<close>

fun denied_message :: "kind \<Rightarrow> string" where
  "denied_message HDF5 = ''HDF5 file is not locked. Access denied.''"
| "denied_message MEMMAP = ''Memory-mapped file is not locked. Access denied.''"
| "denied_message RAW = ''Raw file is not locked. Access denied.''"

text \<open>The flag of the base class is \<open>False\<close>, and the flag of the subclass is not.\<close>

definition flags_ok :: "backend \<Rightarrow> bool" where
  "flags_ok b = (attrs (base b) (mangle ''storage_class'' ''__locked'') = Some False
                 \<and> lock_flag b \<noteq> Some False)"

text \<open>
  A codec for the fixtures that stores the mode, the size and the pixels as they are,
  and one whose JPEG encoder rounds every byte down to a multiple of 8, as a stand-in
  for a lossy encoder.
\<close>

definition plain_encode :: "image \<Rightarrow> byte list" where
  "plain_encode im =
     (if mode im = ''RGB'' then 3 else 1) # of_nat (fst (im_size im)) # of_nat (snd (im_size im))
       # pixels im"

definition plain_decode :: "byte list \<Rightarrow> image option" where
  "plain_decode b =
     (case b of
        t # w # h # px \<Rightarrow>
          Some \<lparr>mode = (if t = 3 then ''RGB'' else ''L''), im_size = (unat w, unat h), pixels = px\<rparr>
      | _ \<Rightarrow> None)"

definition plain_codecs :: codecs where
  "plain_codecs =
     \<lparr>jpeg_encode = plain_encode, png_encode = plain_encode, image_decode = plain_decode,
      convert_mode = (\<lambda>im m. im\<lparr>mode := m\<rparr>)\<rparr>"


text \<open>Arrays filled with consecutive bytes, and the three chunks of the scenario.\<close>

definition ramp :: "nat list \<Rightarrow> nat \<Rightarrow> ndarray" where
  "ramp sh start = \<lparr>shape = sh, buf = map of_nat [start ..< start + prod_list sh]\<rparr>"

definition scenario_inputs :: "nat \<Rightarrow> ndarray" where
  "scenario_inputs k = ramp [2, 2, 2, 3] (24 * k)"

definition scenario_targets :: "nat \<Rightarrow> ndarray" where
  "scenario_targets k = ramp [2, 2, 2] (200 + 8 * k)"

definition scenario_appends :: "call list" where
  "scenario_appends = map (\<lambda>k. Append (scenario_inputs k) (scenario_targets k)) [0 ..< 3]"

text \<open>
  A session constructs a backend and makes a list of calls; \<open>call_after\<close> is what one
  more call returns or raises, \<open>pos_after\<close> the counter the session ends with.
\<close>

definition session ::
  "codecs \<Rightarrow> kind \<Rightarrow> config \<Rightarrow> filesystem \<Rightarrow> call list \<Rightarrow> error + backend \<times> filesystem" where
  "session c k cfg fs calls =
     (case construct k cfg fs of
        (Inl e, fs') \<Rightarrow> Inl e
      | (Inr b, fs') \<Rightarrow> Inr (run c calls (b, fs')))"

definition call_after :: "codecs \<Rightarrow> error + backend \<times> filesystem \<Rightarrow> call \<Rightarrow> error + returned" where
  "call_after c w x = (case w of Inl e \<Rightarrow> Inl e | Inr w' \<Rightarrow> fst (step c x w'))"

definition pos_after :: "error + backend \<times> filesystem \<Rightarrow> error + nat" where
  "pos_after w = map_sum id (\<lambda>(b, fs). pos (base b)) w"

text \<open>\<open>ceil(n / c)\<close>.\<close>

definition ceil_div :: "nat \<Rightarrow> nat \<Rightarrow> nat" where
  "ceil_div n c = (n + c - 1) div c"

text \<open>The same object with another \<^verbatim>\<open>target_shape\<close> in its configuration.\<close>

fun with_target_shape :: "nat list \<Rightarrow> backend \<Rightarrow> backend" where
  "with_target_shape sh (Hdf5 s) = Hdf5 (s\<lparr>config := (config s)\<lparr>target_shape := sh\<rparr>\<rparr>)"
| "with_target_shape sh (Memmap s) = Memmap (s\<lparr>config := (config s)\<lparr>target_shape := sh\<rparr>\<rparr>)"
| "with_target_shape sh (Raw s) = Raw (s\<lparr>config := (config s)\<lparr>target_shape := sh\<rparr>\<rparr>)"

text \<open>An array whose buffer has the length its shape says.\<close>

definition nd_ok :: "ndarray \<Rightarrow> bool" where
  "nd_ok a = (length (buf a) = prod_list (shape a))"



text \<open>
  The invariants of the three classes between construction and \<^verbatim>\<open>lock\<close>: the arrays of
  the container file and the files behind the mappings have the configured shapes, and
  the two directories of the Flat-File backend exist.
\<close>

definition hdf5_ok :: "storage_hdf5 \<Rightarrow> filesystem \<Rightarrow> bool" where
  "hdf5_ok s fs =
     (h5_mode (dataset s) \<noteq> Closed \<and> h5_name (dataset s) = h5_filename (config s)
      \<and> (case h5_dataset (dataset s) ''input'' fs of
            Inr a \<Rightarrow> shape a = input_shape (config s) \<and> nd_ok a
          | Inl e \<Rightarrow> False)
      \<and> (case h5_dataset (dataset s) ''target'' fs of
            Inr t \<Rightarrow> shape t = mask_shape (config s) \<and> nd_ok t
          | Inl e \<Rightarrow> False))"

definition memmap_ok :: "storage_memmap \<Rightarrow> filesystem \<Rightarrow> bool" where
  "memmap_ok s fs =
     (input_path s \<noteq> target_path s \<and> 0 < prod_list (mask_shape (config s))
      \<and> (case (input s, target s) of
            (Some mi, Some mt) \<Rightarrow>
              mm_path mi = input_path s \<and> mm_shape mi = input_shape (config s)
              \<and> mm_path mt = target_path s \<and> mm_shape mt = mask_shape (config s)
              \<and> (case (read_file fs (input_path s), read_file fs (target_path s)) of
                    (Some (Bytes bi), Some (Bytes bt)) \<Rightarrow>
                      length bi = prod_list (input_shape (config s))
                      \<and> length bt = prod_list (mask_shape (config s))
                  | _ \<Rightarrow> False)
          | _ \<Rightarrow> False))"

definition raw_ok :: "storage_raw \<Rightarrow> filesystem \<Rightarrow> bool" where
  "raw_ok s fs =
     (raw_input_path s = path_join (artifact_path (config s)) ''Input''
      \<and> raw_target_path s = path_join (artifact_path (config s)) ''Target''
      \<and> dir_exists fs (raw_input_path s) \<and> dir_exists fs (raw_target_path s))"

fun backend_ok :: "backend \<Rightarrow> filesystem \<Rightarrow> bool" where
  "backend_ok (Hdf5 s) fs = hdf5_ok s fs"
| "backend_ok (Memmap s) fs = memmap_ok s fs"
| "backend_ok (Raw s) fs = raw_ok s fs"




text \<open>
  What a read gives back for a sample that was written: the sample itself from the
  two array backends, the decoded JPEG and PNG encodings from the Flat-File backend.
\<close>

fun reread :: "codecs \<Rightarrow> kind \<Rightarrow> image \<times> image \<Rightarrow> error + image \<times> image" where
  "reread c RAW (im, msk) =
     (case image_decode c (jpeg_encode c im) of
        None \<Rightarrow> Inl OSError
      | Some im' \<Rightarrow>
          (case image_decode c (png_encode c msk) of
             None \<Rightarrow> Inl OSError
           | Some msk' \<Rightarrow> Inr (convert c im' ''RGB'', convert c msk' ''L'')))"
| "reread c k (im, msk) = Inr (im, msk)"

text \<open>The scenario with chunks of three samples, where the second chunk is clipped to two,
  and chunks of three samples for it.\<close>

definition clip_config :: config where
  "clip_config = scenario_config\<lparr>chunk_size := 3\<rparr>"

definition clip_inputs :: "nat \<Rightarrow> ndarray" where
  "clip_inputs k = ramp [3, 2, 2, 3] (36 * k)"

definition clip_targets :: "nat \<Rightarrow> ndarray" where
  "clip_targets k = ramp [3, 2, 2] (200 + 12 * k)"


definition write_calls :: "(ndarray \<times> ndarray) list \<Rightarrow> call list" where
  "write_calls chunks = map (\<lambda>(ic, tc). Append ic tc) chunks"



text \<open>The three chunks of the scenario.\<close>

definition scenario_chunks :: "(ndarray \<times> ndarray) list" where
  "scenario_chunks = map (\<lambda>k. (scenario_inputs k, scenario_targets k)) [0 ..< 3]"

(*PROPERTIES*)
section \<open>Properties of the file system model\<close>

lemma dir_exists_mono:
  "dir_exists fs d \<Longrightarrow> set (dirs fs) \<subseteq> set (dirs fs') \<Longrightarrow> dir_exists fs' d"
  by (auto simp: dir_exists_def)

lemma makedirs_dirs:
  "makedirs p e fs = (r, fs') \<Longrightarrow> set (dirs fs) \<subseteq> set (dirs fs') \<and> files fs' = files fs"
  by (auto simp: makedirs_def split: if_splits)

lemma makedirs_exists:
  "makedirs p False fs = (r, fs') \<Longrightarrow> p \<noteq> [] \<Longrightarrow> dir_exists fs p \<Longrightarrow> r = Inl FileExistsError"
  by (auto simp: makedirs_def split: if_splits)

lemma makedirs_False_ok: "makedirs p False fs = (Inr u, fs') \<Longrightarrow> \<not> dir_exists fs p"
  by (auto simp: makedirs_def split: if_splits)

lemma makedirs_error: "makedirs p e fs = (Inl x, fs') \<Longrightarrow> p \<noteq> [] \<Longrightarrow> x = FileExistsError"
  by (auto simp: makedirs_def split: if_splits)

lemma path_join_nonempty: "b \<noteq> [] \<Longrightarrow> path_join a b \<noteq> []"
  by (auto simp: path_join_def)

lemma map_of_alist_put: "map_of (alist_put k v xs) q = (if q = k then Some v else map_of xs q)"
  by (induction xs) auto

lemma alist_put_same: "map_of xs k = Some v \<Longrightarrow> alist_put k v xs = xs"
  by (induction xs) (auto split: if_splits)

lemma read_store: "read_file (store p x fs) q = (if q = p then Some x else read_file fs q)"
  by (simp add: read_file_def store_def map_of_alist_put)

lemma store_same: "read_file fs p = Some x \<Longrightarrow> store p x fs = fs"
  by (simp add: read_file_def store_def alist_put_same)


section \<open>The artifact location\<close>

text \<open>
  Where the stem of the annotation file does not end in one of the characters \<open>.\<close>,
  \<open>t\<close>, \<open>x\<close>, \<^verbatim>\<open>rstrip(".txt")\<close> removes the extension and nothing else.
\<close>

lemma artifact_path_txt:
  assumes "stem \<noteq> []" and "last stem \<notin> set ''.txt''"
  shows "artifact_path (cfg\<lparr>annotation_file := stem @ ''.txt''\<rparr>) = stem"
proof -
  from assms obtain ys y where stem: "stem = ys @ [y]" and y: "y \<notin> set ''.txt''"
    by (metis append_butlast_last_id)
  show ?thesis
    using y by (simp add: artifact_path_def rstrip_def stem)
qed

text \<open>
  C5: the artifact location is the annotation-file path minus exactly the trailing
  \<open>.txt\<close>. The code calls \<^verbatim>\<open>rstrip(".txt")\<close>, which strips a set of characters and not a
  suffix: for \<^verbatim>\<open>data/test.txt\<close> the three backends use \<^verbatim>\<open>data/tes\<close>, not \<^verbatim>\<open>data/test\<close>.
\<close>

theorem artifact_path_strips_stem_characters:
  "artifact_path (cfg\<lparr>annotation_file := ''data/test.txt''\<rparr>) = ''data/tes''
   \<and> h5_filename (cfg\<lparr>annotation_file := ''data/test.txt''\<rparr>) = ''data/tes.h5''
   \<and> artifact_path (cfg\<lparr>annotation_file := ''data/test.txt''\<rparr>) \<noteq> ''data/test''"
  by (simp add: artifact_path_def h5_filename_def rstrip_def)

section \<open>Construction\<close>

lemma storage_raw_init_named:
  assumes "artifact_path cfg \<noteq> []"
  shows "(dir_exists fs (path_join (artifact_path cfg) ''Input'')
          \<or> dir_exists fs (path_join (artifact_path cfg) ''Target'')
         \<longrightarrow> fst (storage_raw_init cfg fs) = Inl FileExistsError
             \<and> files (snd (storage_raw_init cfg fs)) = files fs)
       \<and> ((\<exists>s. fst (storage_raw_init cfg fs) = Inr s)
            \<longrightarrow> \<not> dir_exists fs (path_join (artifact_path cfg) ''Input'')
              \<and> \<not> dir_exists fs (path_join (artifact_path cfg) ''Target''))"
proof -
  obtain r1 fs1 where m1: "makedirs (artifact_path cfg) True fs = (r1, fs1)" by force
  obtain r2 fs2 where m2: "makedirs (path_join (artifact_path cfg) ''Input'') False fs1 = (r2, fs2)"
    by force
  obtain r3 fs3 where m3: "makedirs (path_join (artifact_path cfg) ''Target'') False fs2 = (r3, fs3)"
    by force
  note d1 = makedirs_dirs[OF m1] and d2 = makedirs_dirs[OF m2] and d3 = makedirs_dirs[OF m3]
  have ne: "path_join (artifact_path cfg) ''Input'' \<noteq> []"
    "path_join (artifact_path cfg) ''Target'' \<noteq> []"
    by (simp_all add: path_join_nonempty)
  show ?thesis
  proof (intro conjI impI)
    assume ex: "dir_exists fs (path_join (artifact_path cfg) ''Input'')
          \<or> dir_exists fs (path_join (artifact_path cfg) ''Target'')"
    have "fst (storage_raw_init cfg fs) = Inl FileExistsError
          \<and> files (snd (storage_raw_init cfg fs)) = files fs"
    proof (cases r1)
      case (Inl e)
      with m1 assms have "e = FileExistsError" by (auto dest: makedirs_error)
      with Inl m1 d1 show ?thesis by (simp add: storage_raw_init_def)
    next
      case r1: (Inr u)
      show ?thesis
      proof (cases r2)
        case (Inl e)
        with m2 ne have "e = FileExistsError" by (auto dest: makedirs_error)
        with Inl r1 m1 m2 d1 d2 show ?thesis by (simp add: storage_raw_init_def)
      next
        case r2: (Inr u2)
        from r2 m2 have "\<not> dir_exists fs1 (path_join (artifact_path cfg) ''Input'')"
          by (auto dest: makedirs_False_ok)
        with d1 have "\<not> dir_exists fs (path_join (artifact_path cfg) ''Input'')"
          by (auto dest: dir_exists_mono)
        with ex have "dir_exists fs (path_join (artifact_path cfg) ''Target'')" by simp
        with d1 d2 have "dir_exists fs2 (path_join (artifact_path cfg) ''Target'')"
          by (auto intro: dir_exists_mono)
        with m3 ne have "r3 = Inl FileExistsError" by (auto dest: makedirs_exists)
        with r1 r2 m1 m2 m3 d1 d2 d3 show ?thesis by (simp add: storage_raw_init_def)
      qed
    qed
    then show "fst (storage_raw_init cfg fs) = Inl FileExistsError"
      and "files (snd (storage_raw_init cfg fs)) = files fs"
      by simp_all
  next
    assume "\<exists>s. fst (storage_raw_init cfg fs) = Inr s"
    then obtain s where ok: "fst (storage_raw_init cfg fs) = Inr s" ..
    from ok m1 obtain u1 where r1: "r1 = Inr u1"
      by (cases r1) (auto simp: storage_raw_init_def)
    from ok m1 m2 r1 obtain u2 where r2: "r2 = Inr u2"
      by (cases r2) (auto simp: storage_raw_init_def)
    from ok m1 m2 m3 r1 r2 obtain u3 where r3: "r3 = Inr u3"
      by (cases r3) (auto simp: storage_raw_init_def)
    from m2 r2 have "\<not> dir_exists fs1 (path_join (artifact_path cfg) ''Input'')"
      by (auto dest: makedirs_False_ok)
    with d1 show "\<not> dir_exists fs (path_join (artifact_path cfg) ''Input'')"
      by (auto dest: dir_exists_mono)
    from m3 r3 have "\<not> dir_exists fs2 (path_join (artifact_path cfg) ''Target'')"
      by (auto dest: makedirs_False_ok)
    with d1 d2 show "\<not> dir_exists fs (path_join (artifact_path cfg) ''Target'')"
      by (meson dir_exists_mono order_trans)
  qed
qed


lemma storage_raw_init_unnamed:
  assumes "artifact_path cfg = []"
  shows "storage_raw_init cfg fs = (Inl FileNotFoundError, fs)"
  using assms by (simp add: storage_raw_init_def makedirs_def)


text \<open>
  C6, as the code has it: constructing a Flat-File backend whose \<^verbatim>\<open>Input\<close> or \<^verbatim>\<open>Target\<close>
  directory exists fails in the constructor, which returns no object to append to and
  has written no file: with \<open>DirectoryConflict\<close> (\<^verbatim>\<open>FileExistsError\<close>) when the backing
  directory has a name, and with \<^verbatim>\<open>FileNotFoundError\<close> when the name derived from the
  annotation file is empty, since \<^verbatim>\<open>os.makedirs('')\<close> raises before either directory is
  looked at. A construction that succeeds found neither directory.
\<close>

theorem storage_raw_init_directory_conflict:
  "(dir_exists fs (path_join (artifact_path cfg) ''Input'')
      \<or> dir_exists fs (path_join (artifact_path cfg) ''Target'')
    \<longrightarrow> fst (storage_raw_init cfg fs) =
          Inl (if artifact_path cfg = [] then FileNotFoundError else FileExistsError)
        \<and> DirectoryConflict FileExistsError \<and> \<not> DirectoryConflict FileNotFoundError
        \<and> files (snd (storage_raw_init cfg fs)) = files fs)
   \<and> ((\<exists>s. fst (storage_raw_init cfg fs) = Inr s)
        \<longrightarrow> \<not> dir_exists fs (path_join (artifact_path cfg) ''Input'')
          \<and> \<not> dir_exists fs (path_join (artifact_path cfg) ''Target''))"
proof -
  let ?I = "dir_exists fs (path_join (artifact_path cfg) ''Input'')"
  let ?T = "dir_exists fs (path_join (artifact_path cfg) ''Target'')"
  let ?r = "storage_raw_init cfg fs"
  have named: "(?I \<or> ?T \<longrightarrow> fst ?r = Inl FileExistsError \<and> files (snd ?r) = files fs)
       \<and> ((\<exists>s. fst ?r = Inr s) \<longrightarrow> \<not> ?I \<and> \<not> ?T)"
    if "artifact_path cfg \<noteq> []"
    using that by (rule storage_raw_init_named)
  have unnamed: "?r = (Inl FileNotFoundError, fs)" if "artifact_path cfg = []"
    using that by (rule storage_raw_init_unnamed)
  have conflict: "fst ?r = Inl (if artifact_path cfg = [] then FileNotFoundError
                                else FileExistsError)
                  \<and> files (snd ?r) = files fs"
    if ex: "?I \<or> ?T"
  proof (cases "artifact_path cfg = []")
    case True
    from unnamed[OF True] have "fst ?r = Inl FileNotFoundError" "snd ?r = fs"
      by (simp_all only: fst_conv snd_conv)
    then show ?thesis by (simp only: True if_True simp_thms)
  next
    case False
    from named[OF False] have "?I \<or> ?T \<longrightarrow> fst ?r = Inl FileExistsError
        \<and> files (snd ?r) = files fs"
      by (rule conjunct1)
    from this ex have "fst ?r = Inl FileExistsError \<and> files (snd ?r) = files fs"
      by (rule mp)
    then show ?thesis by (simp only: False if_False simp_thms)
  qed
  have fresh: "\<not> ?I \<and> \<not> ?T" if ok: "\<exists>s. fst ?r = Inr s"
  proof -
    have ne: "artifact_path cfg \<noteq> []"
    proof
      assume "artifact_path cfg = []"
      from unnamed[OF this] have "fst ?r = Inl FileNotFoundError"
        by (simp only: fst_conv)
      with ok show False by (elim exE) (simp only: sum.distinct)
    qed
    from named[OF ne] have "(\<exists>s. fst ?r = Inr s) \<longrightarrow> \<not> ?I \<and> \<not> ?T"
      by (rule conjunct2)
    from this ok show ?thesis by (rule mp)
  qed
  have d: "DirectoryConflict FileExistsError" "\<not> DirectoryConflict FileNotFoundError"
    by simp_all
  show ?thesis
  proof (intro conjI impI)
    assume ex: "?I \<or> ?T"
    from conflict[OF ex]
    show "fst ?r = Inl (if artifact_path cfg = [] then FileNotFoundError
                        else FileExistsError)"
      by (rule conjunct1)
    from d show "DirectoryConflict FileExistsError"
      and "\<not> DirectoryConflict FileNotFoundError"
      by - assumption+
    from conflict[OF ex] show "files (snd ?r) = files fs" by (rule conjunct2)
  next
    assume ok: "\<exists>s. fst ?r = Inr s"
    from fresh[OF ok] show "\<not> ?I" by (rule conjunct1)
    from fresh[OF ok] show "\<not> ?T" by (rule conjunct2)
  qed
qed

theorem storage_raw_init_directory_conflict_witness:
  "dir_exists conflict_fs (path_join (artifact_path scenario_config) ''Input'')
   \<and> fst (storage_raw_init scenario_config conflict_fs) = Inl FileExistsError
   \<and> DirectoryConflict FileExistsError
   \<and> files (snd (storage_raw_init scenario_config conflict_fs)) = files conflict_fs
   \<and> (\<exists>s. fst (storage_raw_init scenario_config fresh_fs) = Inr s)
   \<and> \<not> dir_exists fresh_fs (path_join (artifact_path scenario_config) ''Input'')
   \<and> \<not> dir_exists fresh_fs (path_join (artifact_path scenario_config) ''Target'')"
proof -
  let ?p = "artifact_path scenario_config"
  have h: "?p \<noteq> []" by code_simp
  have c: "dir_exists conflict_fs (path_join ?p ''Input'')" by code_simp
  have ok: "isl (fst (storage_raw_init scenario_config fresh_fs)) = False" by code_simp
  have ex: "\<exists>s. fst (storage_raw_init scenario_config fresh_fs) = Inr s"
  proof (cases "fst (storage_raw_init scenario_config fresh_fs)")
    case (Inl e)
    with ok show ?thesis by (simp only: sum.disc simp_thms)
  next
    case (Inr s)
    then show ?thesis by (rule exI)
  qed
  from c have "dir_exists conflict_fs (path_join ?p ''Input'')
               \<or> dir_exists conflict_fs (path_join ?p ''Target'')"
    by (rule disjI1)
  with storage_raw_init_directory_conflict[of conflict_fs scenario_config, THEN conjunct1]
  have k: "fst (storage_raw_init scenario_config conflict_fs)
             = Inl (if ?p = [] then FileNotFoundError else FileExistsError)
           \<and> DirectoryConflict FileExistsError \<and> \<not> DirectoryConflict FileNotFoundError
           \<and> files (snd (storage_raw_init scenario_config conflict_fs)) = files conflict_fs"
    by (rule mp)
  from k h have e: "fst (storage_raw_init scenario_config conflict_fs) = Inl FileExistsError"
    by (simp only: if_False)
  from storage_raw_init_directory_conflict[of fresh_fs scenario_config, THEN conjunct2] ex
  have f: "\<not> dir_exists fresh_fs (path_join ?p ''Input'')
        \<and> \<not> dir_exists fresh_fs (path_join ?p ''Target'')"
    by (rule mp)
  from c e k ex f show ?thesis by (elim conjE) (intro conjI, assumption+)
qed

text \<open>
  C6 as stated fails where the derived name is empty: for the annotation file \<^verbatim>\<open>.txt\<close>
  (and, through \<^verbatim>\<open>rstrip\<close>, for \<^verbatim>\<open>t.txt\<close>) and an existing directory \<^verbatim>\<open>Input\<close>, the
  constructor raises \<^verbatim>\<open>FileNotFoundError\<close>, which is not \<open>DirectoryConflict\<close>.
\<close>

theorem storage_raw_init_empty_name_counterexample:
  "artifact_path unnamed_config = []
   \<and> dir_exists input_fs (path_join (artifact_path unnamed_config) ''Input'')
   \<and> fst (storage_raw_init unnamed_config input_fs) = Inl FileNotFoundError
   \<and> fst (storage_raw_init (unnamed_config\<lparr>annotation_file := ''t.txt''\<rparr>) input_fs)
        = Inl FileNotFoundError
   \<and> \<not> DirectoryConflict FileNotFoundError"
proof -
  have a: "artifact_path unnamed_config = []" by code_simp
  have b: "artifact_path (unnamed_config\<lparr>annotation_file := ''t.txt''\<rparr>) = []" by code_simp
  have d: "dir_exists input_fs (path_join (artifact_path unnamed_config) ''Input'')"
    by code_simp
  have n: "\<not> DirectoryConflict FileNotFoundError" by simp
  from a b d n show ?thesis
    by (simp only: storage_raw_init_unnamed fst_conv simp_thms)
qed

text \<open>
  C7: constructing the Container backend over a file in which the arrays \<^verbatim>\<open>input\<close>
  and/or \<^verbatim>\<open>target\<close> exist raises nothing; an array that exists is kept as it is on disk,
  whatever its shape and contents (when both exist, the file system is unchanged), and
  the new object has \<open>pos = 0\<close>.
\<close>

theorem storage_hdf5_init_reuses_existing_arrays:
  assumes "read_file fs (h5_filename cfg) = Some (H5 ds)"
  shows "case storage_hdf5_init cfg fs of
           (Inl e, fs') \<Rightarrow> False
         | (Inr s, fs') \<Rightarrow>
             pos s = 0
             \<and> (\<forall>a. map_of ds ''input'' = Some a \<longrightarrow> h5_dataset (dataset s) ''input'' fs' = Inr a)
             \<and> (\<forall>a. map_of ds ''target'' = Some a \<longrightarrow> h5_dataset (dataset s) ''target'' fs' = Inr a)
             \<and> (map_of ds ''input'' \<noteq> None \<and> map_of ds ''target'' \<noteq> None \<longrightarrow> fs' = fs)"
  using assms
  by (auto simp: storage_hdf5_init_def h5_open_append_def create_dataset_def h5_datasets_def
      except_ValueError_pass_def storage_class_init_def read_store map_of_alist_put
      h5_dataset_def bindE_def Let_def)

theorem storage_hdf5_init_reuses_existing_arrays_witness:
  "read_file stale_fs (h5_filename scenario_config)
     = Some (H5 [(''input'', zeros [5, 1, 1, 3]), (''target'', zeros [5, 1, 1])])
   \<and> (case storage_hdf5_init scenario_config stale_fs of
         (Inl e, fs') \<Rightarrow> False
       | (Inr s, fs') \<Rightarrow>
           pos s = 0
           \<and> h5_dataset (dataset s) ''input'' fs' = Inr (zeros [5, 1, 1, 3])
           \<and> h5_dataset (dataset s) ''target'' fs' = Inr (zeros [5, 1, 1])
           \<and> fs' = stale_fs)"
proof -
  have h: "read_file stale_fs (h5_filename scenario_config)
     = Some (H5 [(''input'', zeros [5, 1, 1, 3]), (''target'', zeros [5, 1, 1])])"
    by code_simp
  from storage_hdf5_init_reuses_existing_arrays[OF h] h show ?thesis
    by (auto split: prod.splits sum.splits)
qed

section \<open>The lock flag and the write-step counter\<close>

lemma mangle_distinct: "mangle (class_name k) ''__locked'' \<noteq> mangle ''storage_class'' ''__locked''"
  by (cases k) (simp_all add: mangle_def)

lemma construct_flags:
  assumes "construct k cfg fs = (Inr b, fs')"
  shows "lock_flag b = None \<and> pos (base b) = 0 \<and> kind_of b = k \<and> config (base b) = cfg
         \<and> attrs (base b) (mangle ''storage_class'' ''__locked'') = Some False"
proof (cases k)
  case HDF5
  with assms show ?thesis
    by (auto simp: storage_hdf5_init_def storage_class_init_def lock_flag_def Let_def
        storage_class.truncate_def mangle_def split: prod.splits sum.splits)
next
  case MEMMAP
  with assms show ?thesis
    by (auto simp: storage_memmap_init_def storage_class_init_def lock_flag_def Let_def
        storage_class.truncate_def mangle_def split: prod.splits sum.splits)
next
  case RAW
  with assms show ?thesis
    by (auto simp: storage_raw_init_def storage_class_init_def lock_flag_def Let_def
        storage_class.truncate_def mangle_def split: prod.splits sum.splits)
qed

lemma append_base:
  assumes "append c b ic tc fs = (r, b', fs')"
  shows "kind_of b' = kind_of b \<and> attrs (base b') = attrs (base b) \<and> config (base b') = config (base b)
         \<and> pos (base b') = (if isl r then pos (base b) else pos (base b) + 1)"
proof (cases b)
  case (Hdf5 s)
  with assms show ?thesis
    by (auto simp: storage_hdf5_append_def storage_class.truncate_def
        split: prod.splits sum.splits)
next
  case (Memmap s)
  with assms show ?thesis
    by (auto simp: storage_memmap_append_def storage_class.truncate_def
        split: prod.splits sum.splits)
next
  case (Raw s)
  with assms show ?thesis
    by (auto simp: storage_raw_append_def storage_class.truncate_def
        split: prod.splits sum.splits)
qed

lemma lock_base:
  assumes "lock b fs = (r, b', fs')"
  shows "kind_of b' = kind_of b \<and> pos (base b') = pos (base b) \<and> config (base b') = config (base b)
         \<and> fs' = fs
         \<and> attrs (base b') = (if isl r then attrs (base b)
               else (attrs (base b))(mangle (class_name (kind_of b)) ''__locked'' := Some True))"
proof (cases b)
  case (Hdf5 s)
  with assms show ?thesis
    by (auto simp: storage_hdf5_lock_def storage_class.truncate_def set_locked_def
        split: prod.splits sum.splits)
next
  case (Memmap s)
  with assms show ?thesis
    by (auto simp: storage_memmap_lock_def storage_class.truncate_def set_locked_def
        split: prod.splits sum.splits)
next
  case (Raw s)
  with assms show ?thesis
    by (auto simp: storage_raw_lock_def storage_class.truncate_def set_locked_def
        split: prod.splits sum.splits)
qed

lemma step_base:
  assumes "step c x (b, fs) = (r, b', fs')"
  shows "kind_of b' = kind_of b \<and> config (base b') = config (base b)
         \<and> (attrs (base b') = attrs (base b)
            \<or> (x = Lock \<and> attrs (base b') =
                  (attrs (base b))(mangle (class_name (kind_of b)) ''__locked'' := Some True)))"
proof (cases x)
  case (Append ic tc)
  with assms show ?thesis by (auto split: prod.splits dest: append_base)
next
  case Lock
  obtain r0 b0 fs0 where l: "lock b fs = (r0, b0, fs0)" by (metis prod_cases3)
  from lock_base[OF l] l assms Lock show ?thesis by (auto split: if_splits)
next
  case (GetItem idx)
  with assms show ?thesis by auto
next
  case DatasetSize
  with assms show ?thesis by auto
qed

lemma getitem_unlocked:
  assumes "lock_flag b = None"
  shows "getitem c b idx fs =
           Inl (AttributeError (no_attribute (class_name (kind_of b))
                  (mangle (class_name (kind_of b)) ''__locked'')))"
  using assms
  by (cases b)
     (simp_all add: lock_flag_def storage_class.truncate_def storage_hdf5_getitem_def
        storage_memmap_getitem_def storage_raw_getitem_def get_locked_def bindE_def)

lemma getattr_not_denied: "getattr cls a x \<noteq> Inl (AttributeError (denied_message k))"
  by (cases k; cases x) (simp_all add: getattr_def no_attribute_def)

lemma bindE_Inl: "bindE x f = Inl e \<longleftrightarrow> x = Inl e \<or> (\<exists>a. x = Inr a \<and> f a = Inl e)"
  by (cases x) (simp_all add: bindE_def)

lemma h5_dataset_error: "h5_dataset f n fs = Inl e \<Longrightarrow> e \<in> {ValueError, OSError, KeyError}"
  by (auto simp: h5_dataset_def h5_datasets_def bindE_def
      split: if_splits option.splits content.splits)

lemma getrow_error: "getrow a i = Inl e \<Longrightarrow> e = IndexError"
  by (auto simp: getrow_def Let_def split: list.splits if_splits)

lemma fromarray_error: "fromarray a = Inl e \<Longrightarrow> e = TypeError"
  by (auto simp: fromarray_def split: list.splits if_splits)

lemma memmap_array_error: "memmap_array m fs = Inl e \<Longrightarrow> e = OSError"
  by (auto simp: memmap_array_def split: option.splits content.splits)

lemma image_open_error: "image_open c p fs = Inl e \<Longrightarrow> e \<in> {FileNotFoundError, OSError}"
  by (auto simp: image_open_def split: option.splits content.splits)

lemma getitem_never_denied:
  assumes "lock_flag b \<noteq> Some False"
  shows "getitem c b idx fs \<noteq> Inl (AttributeError (denied_message (kind_of b)))"
proof (cases b)
  case (Hdf5 s)
  with assms show ?thesis
    by (auto simp: lock_flag_def storage_class.truncate_def storage_hdf5_getitem_def
        get_locked_def bindE_Inl no_attribute_def
        dest: h5_dataset_error getrow_error fromarray_error split: option.splits)
next
  case (Memmap s)
  with assms show ?thesis
    by (auto simp: lock_flag_def storage_class.truncate_def storage_memmap_getitem_def
        get_locked_def bindE_Inl no_attribute_def getattr_def
        dest: memmap_array_error getrow_error fromarray_error split: option.splits)
next
  case (Raw s)
  with assms show ?thesis
    by (auto simp: lock_flag_def storage_class.truncate_def storage_raw_getitem_def
        get_locked_def bindE_Inl no_attribute_def
        dest: image_open_error split: option.splits)
qed

lemma not_NotLocked:
  "h5_dataset f n fs = Inl e \<Longrightarrow> \<not> NotLocked e"
  "getrow a i = Inl e \<Longrightarrow> \<not> NotLocked e"
  "fromarray a = Inl e \<Longrightarrow> \<not> NotLocked e"
  "memmap_array m fs = Inl e \<Longrightarrow> \<not> NotLocked e"
  "image_open c p fs = Inl e \<Longrightarrow> \<not> NotLocked e"
  by (auto dest: h5_dataset_error getrow_error fromarray_error memmap_array_error image_open_error)

lemma getitem_locked:
  assumes "locked_ok b fs" and "getitem c b idx fs = Inl e"
  shows "\<not> NotLocked e"
proof (cases b)
  case (Hdf5 s)
  with assms show ?thesis
    by (auto simp: locked_ok_def lock_flag_def storage_class.truncate_def storage_hdf5_getitem_def
        get_locked_def bindE_Inl
        dest: not_NotLocked split: option.splits)
next
  case (Memmap s)
  with assms show ?thesis
    by (auto simp: locked_ok_def lock_flag_def storage_class.truncate_def storage_memmap_getitem_def
        get_locked_def bindE_Inl getattr_def
        dest: not_NotLocked split: option.splits)
next
  case (Raw s)
  with assms show ?thesis
    by (auto simp: locked_ok_def lock_flag_def storage_class.truncate_def storage_raw_getitem_def
        get_locked_def bindE_Inl
        dest: not_NotLocked split: option.splits)
qed

lemma memmap_open_not_writeable: "memmap_open p sh fs = Inr m \<Longrightarrow> \<not> mm_writeable m"
  by (auto simp: memmap_open_def split: option.splits content.splits if_splits)

lemma lock_locked_ok:
  assumes "lock b fs = (Inr u, b', fs')"
  shows "locked_ok b' fs'"
proof (cases b)
  case (Hdf5 s)
  with assms show ?thesis
    by (auto simp: locked_ok_def lock_flag_def storage_hdf5_lock_def storage_class.truncate_def
        set_locked_def split: sum.splits)
next
  case (Memmap s)
  with assms show ?thesis
    by (auto simp: locked_ok_def lock_flag_def storage_memmap_lock_def storage_class.truncate_def
        set_locked_def dest: memmap_open_not_writeable split: sum.splits)
next
  case (Raw s)
  with assms show ?thesis
    by (auto simp: locked_ok_def lock_flag_def storage_raw_lock_def storage_class.truncate_def
        set_locked_def)
qed

lemma step_locked_ok:
  assumes "locked_ok b fs" and "step c x (b, fs) = (r, b', fs')"
  shows "locked_ok b' fs'"
proof (cases b)
  case (Hdf5 s)
  from assms(2) have "kind_of b' = kind_of b" by (simp add: step_base)
  with Hdf5 obtain s' where b': "b' = Hdf5 s'" by (cases b') auto
  from step_base[OF assms(2)] assms(1) Hdf5 b' show ?thesis
    by (auto simp: locked_ok_def lock_flag_def)
next
  case (Raw s)
  from assms(2) have "kind_of b' = kind_of b" by (simp add: step_base)
  with Raw obtain s' where b': "b' = Raw s'" by (cases b') auto
  from step_base[OF assms(2)] assms(1) Raw b' show ?thesis
    by (auto simp: locked_ok_def lock_flag_def)
next
  case (Memmap s)
  show ?thesis
  proof (cases x)
    case (Append ic tc)
    with assms Memmap show ?thesis
      by (auto simp: locked_ok_def storage_memmap_append_def getattr_def memmap_setslice_def
          split: sum.splits option.splits prod.splits)
  next
    case Lock
    with assms Memmap show ?thesis
      by (cases r)
         (auto simp: locked_ok_def lock_flag_def storage_memmap_lock_def getattr_def
            storage_class.truncate_def set_locked_def
          dest: memmap_open_not_writeable split: sum.splits option.splits prod.splits)
  next
    case (GetItem idx)
    with assms show ?thesis by auto
  next
    case DatasetSize
    with assms show ?thesis by auto
  qed
qed

lemma run_locked_ok: "locked_ok b fs \<Longrightarrow> run c xs (b, fs) = (b', fs') \<Longrightarrow> locked_ok b' fs'"
proof (induction xs arbitrary: b fs)
  case Nil
  then show ?case by simp
next
  case (Cons x xs)
  obtain r b1 fs1 where st: "step c x (b, fs) = (r, b1, fs1)" by (metis prod_cases3)
  from Cons.prems(1) st have "locked_ok b1 fs1" by (rule step_locked_ok)
  moreover from Cons.prems(2) st have "run c xs (b1, fs1) = (b', fs')" by simp
  ultimately show ?case by (rule Cons.IH)
qed

lemma step_flags_ok:
  assumes "flags_ok b" and "step c x (b, fs) = (r, b', fs')"
  shows "flags_ok b'"
  using step_base[OF assms(2)] assms(1) mangle_distinct[of "kind_of b"]
  by (auto simp: flags_ok_def lock_flag_def)

lemma run_flags_ok: "flags_ok b \<Longrightarrow> run c xs (b, fs) = (b', fs') \<Longrightarrow> flags_ok b'"
proof (induction xs arbitrary: b fs)
  case Nil
  then show ?case by simp
next
  case (Cons x xs)
  obtain r b1 fs1 where st: "step c x (b, fs) = (r, b1, fs1)" by (metis prod_cases3)
  from Cons.prems(1) st have "flags_ok b1" by (rule step_flags_ok)
  moreover from Cons.prems(2) st have "run c xs (b1, fs1) = (b', fs')" by simp
  ultimately show ?case by (rule Cons.IH)
qed

lemma run_kind: "run c xs (b, fs) = (b', fs') \<Longrightarrow> kind_of b' = kind_of b \<and> config (base b') = config (base b)"
proof (induction xs arbitrary: b fs)
  case Nil
  then show ?case by simp
next
  case (Cons x xs)
  obtain r b1 fs1 where st: "step c x (b, fs) = (r, b1, fs1)" by (metis prod_cases3)
  from Cons.prems st have "run c xs (b1, fs1) = (b', fs')" by simp
  from Cons.IH[OF this] step_base[OF st] show ?case by simp
qed

lemma run_unlocked:
  "lock_flag b = None \<Longrightarrow> Lock \<notin> set xs \<Longrightarrow> run c xs (b, fs) = (b', fs') \<Longrightarrow> lock_flag b' = None"
proof (induction xs arbitrary: b fs)
  case Nil
  then show ?case by simp
next
  case (Cons x xs)
  obtain r b1 fs1 where st: "step c x (b, fs) = (r, b1, fs1)" by (metis prod_cases3)
  from Cons.prems st have run': "run c xs (b1, fs1) = (b', fs')" by simp
  from Cons.prems(2) have "x \<noteq> Lock" by auto
  with step_base[OF st] Cons.prems(1) have "lock_flag b1 = None"
    by (auto simp: lock_flag_def)
  moreover from Cons.prems(2) have "Lock \<notin> set xs" by simp
  ultimately show ?case using run' by (rule Cons.IH)
qed


lemma step_pos:
  assumes "step c x (b, fs) = (r, b', fs')" and "\<forall>ic tc. x \<noteq> Append ic tc"
  shows "pos (base b') = pos (base b)"
proof (cases x)
  case (Append ic tc)
  with assms show ?thesis by simp
next
  case Lock
  obtain r0 b0 fs0 where l: "lock b fs = (r0, b0, fs0)" by (metis prod_cases3)
  from lock_base[OF l] l assms Lock show ?thesis by auto
next
  case (GetItem idx)
  with assms show ?thesis by auto
next
  case DatasetSize
  with assms show ?thesis by auto
qed

lemma run_locked_flag:
  "lock_flag b = Some True \<Longrightarrow> run c xs (b, fs) = (b', fs') \<Longrightarrow> lock_flag b' = Some True"
proof (induction xs arbitrary: b fs)
  case Nil
  then show ?case by simp
next
  case (Cons x xs)
  obtain r b1 fs1 where st: "step c x (b, fs) = (r, b1, fs1)" by (metis prod_cases3)
  from Cons.prems st have run': "run c xs (b1, fs1) = (b', fs')" by simp
  from step_base[OF st] Cons.prems(1) have "lock_flag b1 = Some True"
    by (auto simp: lock_flag_def)
  then show ?case using run' by (rule Cons.IH)
qed

text \<open>
  C3: for every backend, \<^verbatim>\<open>__getitem__\<close> on an object on which \<^verbatim>\<open>lock\<close> was not called
  (whatever other calls were made since construction) fails with \<open>NotLocked\<close>, here an
  \<^verbatim>\<open>AttributeError\<close>; and once \<^verbatim>\<open>lock\<close> has returned, whatever calls follow,
  \<^verbatim>\<open>__getitem__\<close> never fails with \<open>NotLocked\<close>.
\<close>

theorem lock_gating:
  "(construct k cfg fs0 = (Inr b0, fs1) \<and> Lock \<notin> set calls \<and> run c calls (b0, fs1) = (b, fs)
      \<longrightarrow> (\<exists>e. getitem c b idx fs = Inl e \<and> NotLocked e))
   \<and> (lock b1 fs2 = (Inr u, b2, fs3) \<and> run c calls' (b2, fs3) = (b3, fs4)
      \<longrightarrow> (\<forall>e. getitem c b3 idx' fs4 = Inl e \<longrightarrow> \<not> NotLocked e))"
proof (intro conjI impI allI)
  assume a: "construct k cfg fs0 = (Inr b0, fs1) \<and> Lock \<notin> set calls \<and> run c calls (b0, fs1) = (b, fs)"
  then have "lock_flag b0 = None" using construct_flags by blast
  with a have "lock_flag b = None" by (blast intro: run_unlocked)
  then show "\<exists>e. getitem c b idx fs = Inl e \<and> NotLocked e"
    by (simp add: getitem_unlocked)
next
  fix e
  assume a: "lock b1 fs2 = (Inr u, b2, fs3) \<and> run c calls' (b2, fs3) = (b3, fs4)"
    and g: "getitem c b3 idx' fs4 = Inl e"
  from a have "locked_ok b2 fs3" by (blast intro: lock_locked_ok)
  with a have "locked_ok b3 fs4" by (blast intro: run_locked_ok)
  then show "\<not> NotLocked e" using g by (rule getitem_locked)
qed

lemma session_Inr:
  "session c k cfg fs calls = Inr w \<longleftrightarrow>
     (\<exists>b0 fs1. construct k cfg fs = (Inr b0, fs1) \<and> run c calls (b0, fs1) = w)"
  by (auto simp: session_def split: prod.splits sum.splits)

lemma call_after_Lock:
  assumes "call_after c (Inr (b, fs)) Lock = Inr v"
  shows "\<exists>b' fs'. lock b fs = (Inr (), b', fs')"
  using assms by (cases "lock b fs"; cases "fst (lock b fs)") (auto simp: call_after_def)

theorem lock_gating_witness:
  "\<exists>b0 fs1 b fs b2 fs3.
     construct MEMMAP scenario_config fresh_fs = (Inr b0, fs1)
     \<and> Lock \<notin> set scenario_appends
     \<and> run plain_codecs scenario_appends (b0, fs1) = (b, fs)
     \<and> (\<exists>e. getitem plain_codecs b 0 fs = Inl e \<and> NotLocked e)
     \<and> lock b fs = (Inr (), b2, fs3)
     \<and> run plain_codecs [DatasetSize] (b2, fs3) = (b2, fs3)
     \<and> (\<forall>e. getitem plain_codecs b2 0 fs3 = Inl e \<longrightarrow> \<not> NotLocked e)"
proof -
  have nl: "Lock \<notin> set scenario_appends" by code_simp
  have "isl (session plain_codecs MEMMAP scenario_config fresh_fs scenario_appends) = False"
    by code_simp
  then obtain b fs where
    s: "session plain_codecs MEMMAP scenario_config fresh_fs scenario_appends = Inr (b, fs)"
    by (cases "session plain_codecs MEMMAP scenario_config fresh_fs scenario_appends") auto
  then obtain b0 fs1 where c: "construct MEMMAP scenario_config fresh_fs = (Inr b0, fs1)"
    and r: "run plain_codecs scenario_appends (b0, fs1) = (b, fs)"
    by (auto simp: session_Inr)
  have "call_after plain_codecs
          (session plain_codecs MEMMAP scenario_config fresh_fs scenario_appends) Lock = Inr Nothing"
    by code_simp
  with s obtain b2 fs3 where l: "lock b fs = (Inr (), b2, fs3)"
    by (auto dest: call_after_Lock)
  have r2: "run plain_codecs [DatasetSize] (b2, fs3) = (b2, fs3)" by simp
  from lock_gating[of MEMMAP scenario_config fresh_fs b0 fs1 scenario_appends plain_codecs b fs 0
      b fs "()" b2 fs3 "[DatasetSize]" b2 fs3 0] nl c r l r2
  show ?thesis by blast
qed

text \<open>
  C10: in every backend the flag \<^verbatim>\<open>lock\<close> writes and \<^verbatim>\<open>__getitem__\<close> reads is the
  attribute mangled with the name of the subclass, distinct from the one the base
  constructor sets to \<open>False\<close> (which stays \<open>False\<close>). After any calls of the contract on a
  constructed backend: while \<^verbatim>\<open>lock\<close> has not been called that attribute does not exist,
  and \<^verbatim>\<open>__getitem__\<close> fails with the interpreter's missing-attribute error; a \<^verbatim>\<open>lock\<close>
  that returns sets it to \<open>True\<close>; and \<^verbatim>\<open>__getitem__\<close> never raises the error of its own
  \<^verbatim>\<open>raise\<close> statement.
\<close>

theorem lock_flag_is_private_to_the_subclass:
  assumes "construct k cfg fs0 = (Inr b0, fs1)" and "run c calls (b0, fs1) = (b, fs)"
  shows "mangle (class_name k) ''__locked'' \<noteq> mangle ''storage_class'' ''__locked''
     \<and> lock_flag b = attrs (base b) (mangle (class_name k) ''__locked'')
     \<and> attrs (base b) (mangle ''storage_class'' ''__locked'') = Some False
     \<and> (Lock \<notin> set calls \<longrightarrow>
          lock_flag b = None
          \<and> getitem c b idx fs =
              Inl (AttributeError (no_attribute (class_name k) (mangle (class_name k) ''__locked''))))
     \<and> (\<forall>u b' fs'. lock b fs = (Inr u, b', fs') \<longrightarrow> lock_flag b' = Some True)
     \<and> getitem c b idx fs \<noteq> Inl (AttributeError (denied_message k))"
proof -
  note cf = construct_flags[OF assms(1)]
  from run_kind[OF assms(2)] cf have k: "kind_of b = k" by simp
  from cf have "flags_ok b0" by (simp add: flags_ok_def)
  then have fo: "flags_ok b" using assms(2) by (rule run_flags_ok)
  have u: "lock_flag b = None" if "Lock \<notin> set calls"
    using cf that assms(2) by (blast intro: run_unlocked)
  have l: "lock_flag b' = Some True" if "lock b fs = (Inr u, b', fs')" for u b' fs'
    using lock_locked_ok[OF that] by (simp add: locked_ok_def)
  from fo have nd: "getitem c b idx fs \<noteq> Inl (AttributeError (denied_message k))"
    using getitem_never_denied[of b c idx fs] k by (simp add: flags_ok_def)
  show ?thesis
    using mangle_distinct[of k] k fo u l nd getitem_unlocked[of b c idx fs]
    by (auto simp: flags_ok_def lock_flag_def)
qed

theorem lock_flag_is_private_to_the_subclass_witness:
  "\<exists>b0 fs1 b fs.
     construct RAW scenario_config fresh_fs = (Inr b0, fs1)
     \<and> run plain_codecs scenario_appends (b0, fs1) = (b, fs)
     \<and> Lock \<notin> set scenario_appends
     \<and> lock_flag b = None
     \<and> attrs (base b) (mangle ''storage_class'' ''__locked'') = Some False
     \<and> getitem plain_codecs b 0 fs =
          Inl (AttributeError (no_attribute ''storage_raw'' ''_storage_raw__locked''))
     \<and> lock_flag (fst (snd (lock b fs))) = Some True
     \<and> getitem plain_codecs b 0 fs \<noteq> Inl (AttributeError (denied_message RAW))"
proof -
  have nl: "Lock \<notin> set scenario_appends" by code_simp
  have "isl (session plain_codecs RAW scenario_config fresh_fs scenario_appends) = False"
    by code_simp
  then obtain b fs where
    s: "session plain_codecs RAW scenario_config fresh_fs scenario_appends = Inr (b, fs)"
    by (cases "session plain_codecs RAW scenario_config fresh_fs scenario_appends") auto
  then obtain b0 fs1 where c: "construct RAW scenario_config fresh_fs = (Inr b0, fs1)"
    and r: "run plain_codecs scenario_appends (b0, fs1) = (b, fs)"
    by (auto simp: session_Inr)
  have "call_after plain_codecs
          (session plain_codecs RAW scenario_config fresh_fs scenario_appends) Lock = Inr Nothing"
    by code_simp
  with s obtain b2 fs3 where l: "lock b fs = (Inr (), b2, fs3)"
    by (auto dest: call_after_Lock)
  have m: "mangle (class_name RAW) ''__locked'' = ''_storage_raw__locked''"
    by (simp add: mangle_def)
  from lock_flag_is_private_to_the_subclass[OF c r, of 0] nl l m c r
  show ?thesis by (intro exI[of _ b0] exI[of _ fs1] exI[of _ b] exI[of _ fs]) auto
qed

text \<open>
  C8, as the code has it: \<open>pos\<close> starts at 0; an append that returns increases it by
  exactly 1, an append that raises and every other call leave it; the lock flag is
  absent after construction, a \<^verbatim>\<open>lock\<close> that returns sets it, and once set it stays set
  whatever calls follow. Nothing bounds \<open>pos\<close>.
\<close>

theorem pos_and_lock_flag_transitions:
  "(construct k cfg fs0 = (Inr b0, fs1) \<longrightarrow> pos (base b0) = 0 \<and> lock_flag b0 = None)
   \<and> (append c b ic tc fs = (r, b', fs')
        \<longrightarrow> pos (base b') = (if isl r then pos (base b) else pos (base b) + 1))
   \<and> (step c x (b, fs) = (r', b'', fs'') \<and> (\<forall>ic tc. x \<noteq> Append ic tc)
        \<longrightarrow> pos (base b'') = pos (base b))
   \<and> (lock b fs = (Inr u, b1, fs2) \<longrightarrow> lock_flag b1 = Some True)
   \<and> (lock_flag b = Some True \<and> run c calls (b, fs) = (b2, fs3) \<longrightarrow> lock_flag b2 = Some True)"
proof -
  have 1: "pos (base b0) = 0 \<and> lock_flag b0 = None" if "construct k cfg fs0 = (Inr b0, fs1)"
    using that by (simp add: construct_flags)
  have 2: "pos (base b') = (if isl r then pos (base b) else pos (base b) + 1)"
    if "append c b ic tc fs = (r, b', fs')"
    using that by (simp add: append_base)
  have 3: "pos (base b'') = pos (base b)"
    if "step c x (b, fs) = (r', b'', fs'') \<and> (\<forall>ic tc. x \<noteq> Append ic tc)"
    using that step_pos by blast
  have 4: "lock_flag b1 = Some True" if "lock b fs = (Inr u, b1, fs2)"
    using lock_locked_ok[OF that] by (simp add: locked_ok_def)
  have 5: "lock_flag b2 = Some True"
    if "lock_flag b = Some True \<and> run c calls (b, fs) = (b2, fs3)"
    using that run_locked_flag by blast
  from 1 2 3 4 5 show ?thesis by blast
qed

theorem pos_and_lock_flag_transitions_witness:
  "\<exists>b0 fs1 b fs b1 fs2 b2 fs3.
     construct HDF5 scenario_config fresh_fs = (Inr b0, fs1)
     \<and> pos (base b0) = 0 \<and> lock_flag b0 = None
     \<and> append plain_codecs b0 (scenario_inputs 0) (scenario_targets 0) fs1 = (Inr (), b, fs)
     \<and> pos (base b) = 1
     \<and> step plain_codecs DatasetSize (b, fs) = (Inr (Size 5), b, fs)
     \<and> lock b fs = (Inr (), b1, fs2) \<and> lock_flag b1 = Some True
     \<and> run plain_codecs [Lock, GetItem 0, DatasetSize] (b1, fs2) = (b2, fs3)
     \<and> lock_flag b2 = Some True"
proof -
  have "isl (session plain_codecs HDF5 scenario_config fresh_fs []) = False"
    by code_simp
  then obtain b0 fs1 where c: "construct HDF5 scenario_config fresh_fs = (Inr b0, fs1)"
    by (cases "session plain_codecs HDF5 scenario_config fresh_fs []") (auto simp: session_Inr)
  then have s0: "session plain_codecs HDF5 scenario_config fresh_fs [] = Inr (b0, fs1)"
    by (simp add: session_def)
  have "call_after plain_codecs (session plain_codecs HDF5 scenario_config fresh_fs [])
           (Append (scenario_inputs 0) (scenario_targets 0)) = Inr Nothing"
    by code_simp
  with s0 obtain b fs where
    a: "append plain_codecs b0 (scenario_inputs 0) (scenario_targets 0) fs1 = (Inr (), b, fs)"
    by (cases "append plain_codecs b0 (scenario_inputs 0) (scenario_targets 0) fs1";
        cases "fst (append plain_codecs b0 (scenario_inputs 0) (scenario_targets 0) fs1)")
       (auto simp: call_after_def)
  with c have s1: "session plain_codecs HDF5 scenario_config fresh_fs
                     [Append (scenario_inputs 0) (scenario_targets 0)] = Inr (b, fs)"
    by (simp add: session_def)
  have "call_after plain_codecs (session plain_codecs HDF5 scenario_config fresh_fs
           [Append (scenario_inputs 0) (scenario_targets 0)]) DatasetSize = Inr (Size 5)"
    by code_simp
  with s1 have d: "step plain_codecs DatasetSize (b, fs) = (Inr (Size 5), b, fs)"
    by (simp add: call_after_def)
  have "call_after plain_codecs (session plain_codecs HDF5 scenario_config fresh_fs
           [Append (scenario_inputs 0) (scenario_targets 0)]) Lock = Inr Nothing"
    by code_simp
  with s1 obtain b1 fs2 where l: "lock b fs = (Inr (), b1, fs2)"
    by (auto dest: call_after_Lock)
  obtain b2 fs3 where r: "run plain_codecs [Lock, GetItem 0, DatasetSize] (b1, fs2) = (b2, fs3)"
    by force
  have ne: "\<forall>ic tc. DatasetSize \<noteq> Append ic tc" by simp
  from pos_and_lock_flag_transitions[of HDF5 scenario_config fresh_fs b0 fs1 plain_codecs
      b0 "scenario_inputs 0" "scenario_targets 0" fs1 "Inr ()" b fs] c a
  have p0: "pos (base b0) = 0 \<and> lock_flag b0 = None" and p1: "pos (base b) = 1"
    by auto
  from pos_and_lock_flag_transitions[of HDF5 scenario_config fresh_fs b0 fs1 plain_codecs
      b1 "scenario_inputs 0" "scenario_targets 0" fs2 _ _ _ DatasetSize _ _ _ "()" b1 fs2
      "[Lock, GetItem 0, DatasetSize]" b2 fs3]
    pos_and_lock_flag_transitions[of HDF5 scenario_config fresh_fs b0 fs1 plain_codecs
      b "scenario_inputs 0" "scenario_targets 0" fs _ _ _ DatasetSize _ _ _ "()" b1 fs2] l r
  have l1: "lock_flag b1 = Some True" and l2: "lock_flag b2 = Some True"
    by blast+
  from c p0 a p1 d l l1 r l2 show ?thesis by blast
qed

text \<open>
  C8 as stated fails: in the scenario (\<open>N = 5\<close>, \<open>C = 2\<close>, so \<open>ceil(N / C) = 3\<close>) a fourth
  append returns and leaves \<open>pos = 4\<close>.
\<close>

theorem pos_exceeds_ceil_counterexample:
  "pos_after (session plain_codecs HDF5 scenario_config fresh_fs
      (scenario_appends @ [Append (scenario_inputs 3) (scenario_targets 3)])) = Inr 4
   \<and> \<not> 4 \<le> ceil_div (dataset_size scenario_config) (chunk_size scenario_config)"
  by code_simp

section \<open>Size validation\<close>

lemma storage_hdf5_dataset_size_eq:
  assumes "h5_dataset (dataset s) ''input'' fs = Inr inp"
    and "h5_dataset (dataset s) ''target'' fs = Inr tgt" and "shape tgt \<noteq> []"
  shows "storage_hdf5_dataset_size s fs =
           (if butlast (shape inp) = shape tgt \<and> hd (shape tgt) = dataset_size (config s)
            then Inr (dataset_size (config s)) else Inl AssertionError)"
  using assms by (auto simp: storage_hdf5_dataset_size_def bindE_def split: list.splits)

lemma storage_memmap_dataset_size_eq:
  assumes "input s = Some mi" and "target s = Some mt" and "mm_shape mi \<noteq> []"
  shows "storage_memmap_dataset_size s =
           (if butlast (mm_shape mi) = mm_shape mt \<and> hd (mm_shape mi) = dataset_size (config s)
            then Inr (dataset_size (config s)) else Inl AssertionError)"
  using assms by (auto simp: storage_memmap_dataset_size_def bindE_def getattr_def split: list.splits)

lemma storage_raw_dataset_size_eq:
  assumes "listdir_len fs (raw_input_path s) = Inr ni"
    and "listdir_len fs (raw_target_path s) = Inr nt"
  shows "storage_raw_dataset_size s fs =
           (if ni = nt \<and> ni = dataset_size (config s)
            then Inr (dataset_size (config s)) else Inl AssertionError)"
  using assms by (auto simp: storage_raw_dataset_size_def bindE_def)

lemma dataset_size_call_Inr:
  "dataset_size_call b fs = Inr n \<Longrightarrow> n = dataset_size (config (base b))"
  by (cases b)
     (auto simp: storage_hdf5_dataset_size_def storage_memmap_dataset_size_def
        storage_raw_dataset_size_def bindE_def storage_class.truncate_def
      split: sum.splits list.splits if_splits)

lemma dataset_size_call_ignores_target_shape:
  "dataset_size_call (with_target_shape sh b) fs = dataset_size_call b fs"
  by (cases b)
     (simp_all add: storage_hdf5_dataset_size_def storage_memmap_dataset_size_def
        storage_raw_dataset_size_def cong: if_cong list.case_cong)

text \<open>
  C4, as the code has it: a call of \<^verbatim>\<open>dataset_size\<close> that returns, returns the configured
  \<open>N\<close>. It raises \<^verbatim>\<open>AssertionError\<close> (\<open>ShapeMismatch\<close>) exactly when, for the Container
  backend, the extents of the stored \<^verbatim>\<open>input\<close> array without the channel axis differ
  from those of \<^verbatim>\<open>target\<close> or the first extent of \<^verbatim>\<open>target\<close> differs from \<open>N\<close>; for the
  Mapped-Array backend, the same of the shapes its two mappings were opened with; for
  the Flat-File backend, when the numbers of entries of the two directories differ or
  differ from \<open>N\<close>. The configured spatial shape is not looked at: the result is the same
  for every \<^verbatim>\<open>target_shape\<close>.
\<close>

theorem dataset_size_validates_sample_count_only:
  "(\<forall>n. dataset_size_call b fs = Inr n \<longrightarrow> n = dataset_size (config (base b)))
   \<and> dataset_size_call (with_target_shape sh b) fs = dataset_size_call b fs
   \<and> (case b of
         Hdf5 s \<Rightarrow>
           \<forall>inp tgt. h5_dataset (dataset s) ''input'' fs = Inr inp
               \<and> h5_dataset (dataset s) ''target'' fs = Inr tgt \<and> shape tgt \<noteq> []
             \<longrightarrow> dataset_size_call b fs =
                   (if butlast (shape inp) = shape tgt \<and> hd (shape tgt) = dataset_size (config s)
                    then Inr (dataset_size (config s)) else Inl AssertionError)
       | Memmap s \<Rightarrow>
           \<forall>mi mt. input s = Some mi \<and> target s = Some mt \<and> mm_shape mi \<noteq> []
             \<longrightarrow> dataset_size_call b fs =
                   (if butlast (mm_shape mi) = mm_shape mt \<and> hd (mm_shape mi) = dataset_size (config s)
                    then Inr (dataset_size (config s)) else Inl AssertionError)
       | Raw s \<Rightarrow>
           \<forall>ni nt. listdir_len fs (raw_input_path s) = Inr ni
               \<and> listdir_len fs (raw_target_path s) = Inr nt
             \<longrightarrow> dataset_size_call b fs =
                   (if ni = nt \<and> ni = dataset_size (config s)
                    then Inr (dataset_size (config s)) else Inl AssertionError))"
proof -
  have 1: "\<forall>n. dataset_size_call b fs = Inr n \<longrightarrow> n = dataset_size (config (base b))"
    by (simp add: dataset_size_call_Inr)
  have 2: "dataset_size_call (with_target_shape sh b) fs = dataset_size_call b fs"
    by (rule dataset_size_call_ignores_target_shape)
  show ?thesis
  proof (cases b)
    case (Hdf5 s)
    with 1 2 show ?thesis by (simp add: storage_hdf5_dataset_size_eq)
  next
    case (Memmap s)
    with 1 2 show ?thesis by (simp add: storage_memmap_dataset_size_eq)
  next
    case (Raw s)
    with 1 2 show ?thesis by (simp add: storage_raw_dataset_size_eq)
  qed
qed

theorem dataset_size_validates_sample_count_only_witness:
  "\<exists>s fs ni nt.
     session plain_codecs RAW scenario_config fresh_fs (take 2 scenario_appends) = Inr (Raw s, fs)
     \<and> listdir_len fs (raw_input_path s) = Inr ni \<and> listdir_len fs (raw_target_path s) = Inr nt
     \<and> ni = 4 \<and> nt = 4 \<and> dataset_size (config s) = 5
     \<and> dataset_size_call (Raw s) fs = Inl AssertionError
     \<and> dataset_size_call (with_target_shape [7, 7] (Raw s)) fs = Inl AssertionError"
proof -
  let ?w = "session plain_codecs RAW scenario_config fresh_fs (take 2 scenario_appends)"
  have k: "map_sum id (\<lambda>w. kind_of (fst w)) ?w = Inr RAW" by code_simp
  then obtain s fs where w: "?w = Inr (Raw s, fs)"
    by (cases ?w) (auto elim: kind_of.elims)
  have "(case ?w of Inr (Raw s, fs) \<Rightarrow>
           (listdir_len fs (raw_input_path s), listdir_len fs (raw_target_path s),
            dataset_size (config s))
         | _ \<Rightarrow> (Inl OSError, Inl OSError, 0)) = (Inr 4, Inr 4, 5)"
    by code_simp
  with w have l: "listdir_len fs (raw_input_path s) = Inr 4"
    "listdir_len fs (raw_target_path s) = Inr 4" "dataset_size (config s) = 5"
    by simp_all
  from dataset_size_validates_sample_count_only[of "Raw s" fs "[7, 7]"] l w
  show ?thesis by auto
qed

text \<open>
  C4 as stated fails: over a container file whose arrays hold \<open>1 \<times> 1\<close> samples, a backend
  configured for \<open>2 \<times> 2\<close> samples is constructed, and its \<^verbatim>\<open>dataset_size\<close> returns 5.
\<close>

theorem dataset_size_accepts_other_spatial_shape_counterexample:
  "call_after plain_codecs (session plain_codecs HDF5 scenario_config stale_fs []) DatasetSize
     = Inr (Size 5)
   \<and> map_sum id snd (session plain_codecs HDF5 scenario_config stale_fs []) = Inr stale_fs
   \<and> read_file stale_fs (h5_filename scenario_config)
       = Some (H5 [(''input'', zeros [5, 1, 1, 3]), (''target'', zeros [5, 1, 1])])
   \<and> input_shape scenario_config = [5, 2, 2, 3]
   \<and> mask_shape scenario_config = [5, 2, 2]"
  by code_simp

section \<open>Arrays as rows\<close>










lemma span_empty: "r \<le> l \<Longrightarrow> snd (span n l r) = 0"
  by (simp add: span_def min_def)


text \<open>\<^verbatim>\<open>a[l:r] = v\<close> for an empty slice changes nothing, if it is accepted.\<close>

lemma put_rows_empty:
  assumes "put_rows a l r v = Some a'" and "r \<le> l" and "nd_ok v"
  shows "a' = a"
proof -
  from assms(1) obtain n rest k vrest where sh: "shape a = n # rest" "shape v = k # vrest"
    by (auto simp: put_rows_def split: list.splits)
  have c: "span n l r = (min l n, 0)" using assms(2) by (simp add: span_def min_def)
  from assms(1) sh c have k: "vrest = rest" "k = 0 \<or> k = 1"
    by (auto simp: put_rows_def split: if_splits)
  from assms(3) sh k have "k = 0 \<Longrightarrow> buf v = []" by (simp add: nd_ok_def)
  with assms(1) sh c k show ?thesis
    by (auto simp: put_rows_def split: if_splits)
qed

section \<open>Writing a slice\<close>



lemma slice_upto_nd_ok:
  assumes "slice_upto a j = Inr v" and "nd_ok a"
  shows "nd_ok v"
proof -
  from assms(1) obtain n rest where sh: "shape a = n # rest"
    by (auto simp: slice_upto_def split: list.splits)
  define stop where "stop = (if j < 0 then nat (int n + j) else min (nat j) n)"
  have "stop \<le> n" by (auto simp: stop_def)
  then have "stop * prod_list rest \<le> length (buf a)"
    using assms(2) sh by (simp add: nd_ok_def)
  moreover from assms(1) sh have "v = \<lparr>shape = stop # rest, buf = take (stop * prod_list rest) (buf a)\<rparr>"
    by (auto simp: slice_upto_def stop_def Let_def)
  ultimately show ?thesis by (simp add: nd_ok_def)
qed




lemma h5_dataset_Inr:
  "h5_dataset f name fs = Inr a \<longleftrightarrow> (\<exists>ds. h5_datasets f fs = Inr ds \<and> map_of ds name = Some a)"
  by (cases "h5_datasets f fs") (auto simp: h5_dataset_def bindE_def split: option.splits)








section \<open>Names of the sample files\<close>














lemma ends_with_append: "ends_with (xs @ e) e"
  by (simp add: ends_with_def)











section \<open>Writing the files of a chunk\<close>

lemma image_open_store:
  "image_open c q (store p x fs) = (if q = p then image_open c p (store p x fs) else image_open c q fs)"
  by (simp add: image_open_def read_store)











section \<open>An append, for every backend\<close>





section \<open>Construction on a fresh location\<close>








section \<open>The index range of an append\<close>




section \<open>An append beyond the dataset\<close>

lemma r_idx_beyond:
  assumes "dataset_size (config s) \<le> l_idx s"
  shows "r_idx s \<le> l_idx s"
  using assms by (simp add: r_idx_def)

lemma h5_setslice_empty:
  assumes "r \<le> l" and "h5_setslice f name l r v fs = (x, fs')"
  shows "fs' = fs"
  using assms
  by (auto simp: h5_setslice_def span_empty split: sum.splits option.splits list.splits)

lemma h5_setslice_empty_ok:
  assumes "r \<le> l" and "h5_dataset f name fs = Inr a" and "shape a \<noteq> []"
  shows "h5_setslice f name l r v fs = (Inr (), fs)"
proof -
  from assms(2) obtain ds where "h5_datasets f fs = Inr ds" "map_of ds name = Some a"
    by (auto simp: h5_dataset_Inr)
  with assms(1,3) show ?thesis
    by (cases "shape a") (simp_all add: h5_setslice_def span_empty)
qed

lemma slice_upto_Inr: "shape a \<noteq> [] \<Longrightarrow> \<exists>v. slice_upto a j = Inr v"
  by (cases "shape a") (simp_all add: slice_upto_def Let_def)

lemma memmap_setslice_empty:
  assumes "r \<le> l" and "nd_ok v" and "memmap_setslice m l r v fs = (x, fs')"
  shows "fs' = fs"
proof (cases "mm_writeable m")
  case False
  with assms(3) show ?thesis by (simp add: memmap_setslice_def)
next
  case True
  show ?thesis
  proof (cases "read_file fs (mm_path m)")
    case None
    with True assms(3) show ?thesis by (simp add: memmap_setslice_def)
  next
    case (Some ct)
    show ?thesis
    proof (cases ct)
      case (H5 ds)
      with Some True assms(3) show ?thesis by (simp add: memmap_setslice_def)
    next
      case (Bytes b)
      let ?a = "\<lparr>shape = mm_shape m, buf = take (prod_list (mm_shape m)) b\<rparr>"
      show ?thesis
      proof (cases "put_rows ?a l r v")
        case None
        with Bytes Some True assms(3) show ?thesis by (simp add: memmap_setslice_def)
      next
        case a': (Some a')
        from put_rows_empty[OF a' assms(1,2)] have "a' = ?a" .
        then have "buf a' @ drop (prod_list (mm_shape m)) b = b" by simp
        with a' Bytes Some True assms(3) show ?thesis
          by (simp add: memmap_setslice_def store_same)
      qed
    qed
  qed
qed

lemma storage_hdf5_append_beyond:
  assumes "dataset_size (config s) \<le> l_idx s" and "storage_hdf5_append s ic tc fs = (x, s', fs')"
  shows "fs' = fs"
  using assms(2) r_idx_beyond[OF assms(1)]
  by (auto simp: storage_hdf5_append_def split: sum.splits prod.splits
      dest!: h5_setslice_empty[rotated])

lemma storage_memmap_append_beyond:
  assumes "dataset_size (config s) \<le> l_idx s" and "nd_ok ic" and "nd_ok tc"
    and "storage_memmap_append s ic tc fs = (x, s', fs')"
  shows "fs' = fs"
proof -
  note r = r_idx_beyond[OF assms(1)]
  note e = memmap_setslice_empty[rotated 2]
  show ?thesis
  proof (cases "slice_upto ic (int (r_idx s) - int (l_idx s))")
    case (Inl err)
    with assms(4) show ?thesis by (simp add: storage_memmap_append_def)
  next
    case vi: (Inr vi)
    note ni = slice_upto_nd_ok[OF vi assms(2)]
    show ?thesis
    proof (cases "slice_upto tc (int (r_idx s) - int (l_idx s))")
      case (Inl err)
      with vi assms(4) r ni show ?thesis
        by (auto simp: storage_memmap_append_def split: sum.splits prod.splits dest!: e)
    next
      case vt: (Inr vt)
      note nt = slice_upto_nd_ok[OF vt assms(3)]
      from vi vt assms(4) r ni nt show ?thesis
        by (auto simp: storage_memmap_append_def split: sum.splits prod.splits dest!: e)
    qed
  qed
qed

lemma storage_raw_append_beyond:
  assumes "dataset_size (config s) \<le> l_idx s"
  shows "storage_raw_append c s ic tc fs = (Inr (), s\<lparr>pos := pos s + 1\<rparr>, fs)"
  using r_idx_beyond[OF assms] by (simp add: storage_raw_append_def)

lemma storage_hdf5_append_beyond_ok:
  assumes "dataset_size (config s) \<le> l_idx s" and "hdf5_ok s fs"
    and "shape ic \<noteq> []" and "shape tc \<noteq> []"
  shows "storage_hdf5_append s ic tc fs = (Inr (), s\<lparr>pos := pos s + 1\<rparr>, fs)"
proof -
  note r = r_idx_beyond[OF assms(1)]
  from assms(2) obtain a t where
    a: "h5_dataset (dataset s) ''input'' fs = Inr a" "shape a \<noteq> []"
    and t: "h5_dataset (dataset s) ''target'' fs = Inr t" "shape t \<noteq> []"
    by (auto simp: hdf5_ok_def input_shape_def mask_shape_def split: sum.splits)
  obtain vi vt where v: "slice_upto ic (int (r_idx s) - int (l_idx s)) = Inr vi"
    "slice_upto tc (int (r_idx s) - int (l_idx s)) = Inr vt"
    using slice_upto_Inr[OF assms(3)] slice_upto_Inr[OF assms(4)] by blast
  show ?thesis
    using v h5_setslice_empty_ok[OF r a] h5_setslice_empty_ok[OF r t]
    by (simp add: storage_hdf5_append_def)
qed

text \<open>
  C9, as the code has it: an append whose index range is empty (\<open>pos * C \<ge> N\<close>) leaves
  the file system as it is in every backend, whether it returns or raises, and increments
  \<open>pos\<close> by exactly 1 if it returns. In the Container and the Flat-File backend it
  returns. (In the Mapped-Array backend it can raise; then \<open>pos\<close> is not incremented.)
\<close>

theorem append_beyond_the_dataset:
  assumes "dataset_size (config (base b)) \<le> pos (base b) * chunk_size (config (base b))"
    and "nd_ok ic" and "nd_ok tc"
    and "append c b ic tc fs = (r, b', fs')"
  shows "fs' = fs
       \<and> pos (base b') = (if isl r then pos (base b) else pos (base b) + 1)
       \<and> (kind_of b \<noteq> MEMMAP \<and> backend_ok b fs \<and> shape ic \<noteq> [] \<and> shape tc \<noteq> []
            \<longrightarrow> r = Inr ())"
proof -
  have p: "pos (base b') = (if isl r then pos (base b) else pos (base b) + 1)"
    using append_base[OF assms(4)] by simp
  show ?thesis
  proof (cases b)
    case (Hdf5 s)
    from assms(1) Hdf5 have l: "dataset_size (config s) \<le> l_idx s"
      by (simp add: l_idx_def storage_class.truncate_def)
    from assms(4) Hdf5 obtain s' where a: "storage_hdf5_append s ic tc fs = (r, s', fs')"
      by (auto split: prod.splits)
    from storage_hdf5_append_beyond[OF l a] have "fs' = fs" .
    moreover have "r = Inr ()" if "hdf5_ok s fs" "shape ic \<noteq> []" "shape tc \<noteq> []"
      using storage_hdf5_append_beyond_ok[OF l that] a by simp
    ultimately show ?thesis using p Hdf5 by simp
  next
    case (Memmap s)
    from assms(1) Memmap have l: "dataset_size (config s) \<le> l_idx s"
      by (simp add: l_idx_def storage_class.truncate_def)
    from assms(4) Memmap obtain s' where a: "storage_memmap_append s ic tc fs = (r, s', fs')"
      by (auto split: prod.splits)
    from storage_memmap_append_beyond[OF l assms(2,3) a] have "fs' = fs" .
    then show ?thesis using p Memmap by simp
  next
    case (Raw s)
    from assms(1) Raw have l: "dataset_size (config s) \<le> l_idx s"
      by (simp add: l_idx_def storage_class.truncate_def)
    from storage_raw_append_beyond[OF l, of c ic tc fs] assms(4) Raw
    have "fs' = fs" "r = Inr ()" by auto
    then show ?thesis using p by simp
  qed
qed

theorem append_beyond_the_dataset_witness:
  "\<exists>b fs b'. session plain_codecs HDF5 scenario_config fresh_fs scenario_appends = Inr (b, fs)
      \<and> dataset_size (config (base b)) \<le> pos (base b) * chunk_size (config (base b))
      \<and> nd_ok (scenario_inputs 3) \<and> nd_ok (scenario_targets 3)
      \<and> kind_of b \<noteq> MEMMAP \<and> backend_ok b fs
      \<and> shape (scenario_inputs 3) \<noteq> [] \<and> shape (scenario_targets 3) \<noteq> []
      \<and> append plain_codecs b (scenario_inputs 3) (scenario_targets 3) fs = (Inr (), b', fs)
      \<and> pos (base b) = 3 \<and> pos (base b') = 4"
proof -
  let ?w = "session plain_codecs HDF5 scenario_config fresh_fs scenario_appends"
  have ev: "case ?w of
              Inl e \<Rightarrow> False
            | Inr (b, fs) \<Rightarrow>
                backend_ok b fs \<and> kind_of b \<noteq> MEMMAP \<and> pos (base b) = 3
                \<and> dataset_size (config (base b)) \<le> pos (base b) * chunk_size (config (base b))
                \<and> nd_ok (scenario_inputs 3) \<and> nd_ok (scenario_targets 3)
                \<and> shape (scenario_inputs 3) \<noteq> [] \<and> shape (scenario_targets 3) \<noteq> []"
    by code_simp
  then obtain b fs where w: "?w = Inr (b, fs)" by (cases ?w) auto
  with ev have h: "backend_ok b fs" "kind_of b \<noteq> MEMMAP" "pos (base b) = 3"
    "dataset_size (config (base b)) \<le> pos (base b) * chunk_size (config (base b))"
    "nd_ok (scenario_inputs 3)" "nd_ok (scenario_targets 3)"
    "shape (scenario_inputs 3) \<noteq> []" "shape (scenario_targets 3) \<noteq> []"
    by auto
  obtain r b' fs' where
    a: "append plain_codecs b (scenario_inputs 3) (scenario_targets 3) fs = (r, b', fs')"
    by (metis prod_cases3)
  from append_beyond_the_dataset[OF h(4,5,6) a] h
  have "fs' = fs" "r = Inr ()" "pos (base b') = 4" by auto
  with a w h show ?thesis by auto
qed

text \<open>
  C9 as stated fails in the Mapped-Array backend: with \<open>N = 5\<close> and \<open>C = 3\<close>, the third
  append of a chunk of three samples (\<open>pos = 2\<close>, \<open>pos * C = 6 \<ge> N\<close>) assigns the two rows
  of \<^verbatim>\<open>chunk[:-1]\<close> to an empty slice; \<^verbatim>\<open>numpy\<close> raises \<^verbatim>\<open>ValueError\<close>, and \<open>pos\<close> stays 2.
\<close>

theorem memmap_append_beyond_raises_counterexample:
  "call_after plain_codecs
     (session plain_codecs MEMMAP clip_config fresh_fs
        [Append (clip_inputs 0) (clip_targets 0), Append (clip_inputs 1) (clip_targets 1)])
     (Append (clip_inputs 2) (clip_targets 2)) = Inl ValueError
   \<and> pos_after (session plain_codecs MEMMAP clip_config fresh_fs
        [Append (clip_inputs 0) (clip_targets 0), Append (clip_inputs 1) (clip_targets 1)]) = Inr 2
   \<and> pos_after (session plain_codecs MEMMAP clip_config fresh_fs
        [Append (clip_inputs 0) (clip_targets 0), Append (clip_inputs 1) (clip_targets 1),
         Append (clip_inputs 2) (clip_targets 2)]) = Inr 2
   \<and> dataset_size clip_config \<le> 2 * chunk_size clip_config"
  by code_simp

section \<open>Locking and reading\<close>







section \<open>Writing a dataset and reading it back\<close>








lemma reread_lossless:
  assumes "image_decode c (jpeg_encode c im) = Some im"
    and "image_decode c (png_encode c msk) = Some msk"
    and "mode im = ''RGB''" and "mode msk = ''L''"
  shows "reread c RAW (im, msk) = Inr (im, msk)"
  using assms by (simp add: convert_def)



lemma scenario_appends_eq: "scenario_appends = write_calls scenario_chunks"
  by (simp add: scenario_appends_def write_calls_def scenario_chunks_def)



end
